theory Spec2Isabelle
  imports Main
begin

section \<open>Arrays and their concrete representation\<close>

text \<open>
  \<open>type(x)\<close> of an array argument: a plain numeric array or one of the two symbolic
  expression classes. None of the three is a subclass of another, so
  \<open>isinstance(y, type(x))\<close> is equality of the tags.
\<close>

datatype data_type = NdArray | MX | SX

text \<open>
  A one-dimensional array of shape \<open>(n,)\<close>, or a two-dimensional one of shape
  \<open>(n, K)\<close> kept as its row count and the list of its \<open>K\<close> columns (a column is one
  sample of a batch). Only a plain numeric array can be one-dimensional: a symbolic
  expression is always a matrix.
\<close>

datatype 'a tensor = Vec "'a list" | Mat nat "'a list list"

datatype 'a Vector = Vector (type_of: data_type) (data_of: "'a tensor")

fun shape :: "'a tensor \<Rightarrow> nat list" where
  "shape (Vec xs) = [length xs]"
| "shape (Mat n cols) = [n, length cols]"

section \<open>Exceptions\<close>

text \<open>
  One constructor for each \<open>raise\<close> of the source and for each failure of an
  indexing expression:
  \<^item> \<open>TypeMismatch\<close>: \<open>ValueError("... must have the same type")\<close>;
  \<^item> \<open>DimensionMismatch expected got\<close>: \<open>ValueError("... controls should have
    {expected} ..., but got {got}")\<close>;
  \<^item> \<open>UnsupportedControlType\<close>: \<open>NotImplementedError("Control ... not implemented")\<close>;
  \<^item> \<open>UnsupportedIntegrationMethod\<close>: \<open>NotImplementedError("Integration method ...")\<close>;
  \<^item> \<open>UnimplementedParameter\<close>: \<open>NotImplementedError("Parameter ... not implemented")\<close>;
  \<^item> \<open>UnsupportedMuscleType\<close>: \<open>ValueError("Muscle type ... not supported")\<close>;
  \<^item> \<open>IndexError\<close>: an index outside an array, a list or a shape tuple (for a
    symbolic matrix, the error that the symbolic library raises for it);
  \<^item> \<open>AttributeError\<close>: a method that the object does not have;
  \<^item> \<open>TypeError\<close>: a symbolic expression assigned to a cell of a plain numeric array;
  \<^item> \<open>ConcatenateError\<close>: two arrays that cannot be stacked;
  \<^item> \<open>EngineError\<close>: the engine is asked for a muscle it does not have;
  \<^item> \<open>SolverError\<close>: the numerical solver refuses its arguments.
\<close>

datatype error =
    TypeMismatch
  | DimensionMismatch nat nat
  | UnsupportedControlType
  | UnsupportedIntegrationMethod
  | UnimplementedParameter
  | UnsupportedMuscleType
  | IndexError
  | AttributeError
  | TypeError
  | ConcatenateError
  | EngineError
  | SolverError

section \<open>The rigid-body and muscle engine\<close>

datatype muscle_type = IDEALIZED_ACTUATOR | HILL | HILL_THELEN | HILL_DE_GROOTE | OTHER_MUSCLE_TYPE

text \<open>
  The mutable part of the engine's model: the kinematic cache written by
  \<open>updateMuscles\<close>, the optimal length of every muscle, and the muscles' internal
  states returned by \<open>stateSet\<close>.
\<close>

record 'a dynamic =
  kinematic_cache :: "('a list \<times> 'a list option) option"
  optimal_length :: "nat \<Rightarrow> 'a"
  state_set :: "('a \<times> 'a) list"

text \<open>
  The engine is external: its sizes, the declared type of each muscle and its
  computations are parameters. Every computation reads the mutable part it is given.
  \<open>casadi_eval\<close> is the evaluation of a constant symbolic expression to a number,
  \<open>casadi_number\<close> the constant symbolic expression of a number.
\<close>

record 'a engine =
  nbQ :: nat
  nbMuscleTotal :: nat
  muscle_type_id :: "nat \<Rightarrow> muscle_type"
  eng_length :: "'a dynamic \<Rightarrow> nat \<Rightarrow> 'a list \<Rightarrow> 'a"
  eng_velocity :: "'a dynamic \<Rightarrow> nat \<Rightarrow> 'a list \<Rightarrow> 'a list \<Rightarrow> 'a"
  eng_FlPE :: "'a dynamic \<Rightarrow> nat \<Rightarrow> 'a"
  eng_FlCE :: "'a dynamic \<Rightarrow> nat \<Rightarrow> 'a \<times> 'a \<Rightarrow> 'a"
  eng_FvCE :: "'a dynamic \<Rightarrow> nat \<Rightarrow> 'a"
  eng_force :: "'a dynamic \<Rightarrow> nat \<Rightarrow> 'a \<times> 'a \<Rightarrow> 'a"
  eng_ForwardDynamics :: "'a dynamic \<Rightarrow> 'a tensor \<Rightarrow> 'a tensor \<Rightarrow> 'a tensor \<Rightarrow> 'a tensor"
  eng_muscularJointTorque :: "'a dynamic \<Rightarrow> ('a \<times> 'a) list \<Rightarrow> 'a tensor \<Rightarrow> 'a tensor \<Rightarrow> 'a tensor"
  casadi_eval :: "'a \<Rightarrow> 'a"
  casadi_number :: "nat \<Rightarrow> 'a"

text \<open>
  The calls into the engine that compute or mutate, in the order they are made. The
  list is a spy on the engine; reading the two sizes is not recorded.
\<close>

datatype engine_call =
    Call_updateMuscles
  | Call_muscle nat
  | Call_length nat
  | Call_velocity nat
  | Call_FlPE nat
  | Call_FlCE nat
  | Call_FvCE nat
  | Call_force nat
  | Call_stateSet
  | Call_muscularJointTorque
  | Call_ForwardDynamics
  | Call_setOptimalLength nat
  | Call_optimalLength nat

text \<open>The object \<open>self\<close> of class \<open>ModelBiorbd\<close>.\<close>

record 'a ModelBiorbd =
  use_casadi :: bool
  brbd :: "'a engine"
  dyn :: "'a dynamic"
  calls :: "engine_call list"

definition n_q :: "'a ModelBiorbd \<Rightarrow> nat" where
  "n_q self = nbQ (brbd self)"

definition n_muscles :: "'a ModelBiorbd \<Rightarrow> nat" where
  "n_muscles self = nbMuscleTotal (brbd self)"

section \<open>Statements that may raise and that change the model\<close>

type_synonym ('s, 'r) prog = "'s \<Rightarrow> (error + 'r) \<times> 's"

definition ret :: "'r \<Rightarrow> ('s, 'r) prog" where
  "ret x = (\<lambda>s. (Inr x, s))"

definition raise :: "error \<Rightarrow> ('s, 'r) prog" where
  "raise e = (\<lambda>s. (Inl e, s))"

definition bind :: "('s, 'a) prog \<Rightarrow> ('a \<Rightarrow> ('s, 'b) prog) \<Rightarrow> ('s, 'b) prog" where
  "bind m f = (\<lambda>s. case m s of (Inl e, s') \<Rightarrow> (Inl e, s') | (Inr x, s') \<Rightarrow> f x s')"

text \<open>\<open>for i in js: acc = body(i, acc)\<close>, left at the first exception.\<close>

fun for_loop :: "nat list \<Rightarrow> (nat \<Rightarrow> 'b \<Rightarrow> ('s, 'b) prog) \<Rightarrow> 'b \<Rightarrow> ('s, 'b) prog" where
  "for_loop [] body acc = ret acc"
| "for_loop (i # js) body acc = bind (body i acc) (\<lambda>acc'. for_loop js body acc')"

definition engine_call :: "engine_call \<Rightarrow> ('a ModelBiorbd, unit) prog" where
  "engine_call c = (\<lambda>self. (Inr (), self\<lparr>calls := calls self @ [c]\<rparr>))"

text \<open>\<open>self._model.muscle(j)\<close>: the engine knows the muscles \<open>0 .. nbMuscleTotal - 1\<close>.\<close>

definition muscle :: "nat \<Rightarrow> ('a ModelBiorbd, nat) prog" where
  "muscle j = bind (engine_call (Call_muscle j))
     (\<lambda>_ self. if j < nbMuscleTotal (brbd self) then (Inr j, self) else (Inl EngineError, self))"

section \<open>Parameter accessor\<close>

text \<open>
  The enumeration \<open>MuscleParameter\<close> is declared outside the files at hand; the source
  names its member \<open>OPTIMAL_LENGTH\<close>, and every other value a caller can pass is
  \<open>OTHER_PARAMETER\<close>.
\<close>

datatype MuscleParameter = OPTIMAL_LENGTH | OTHER_PARAMETER

definition setOptimalLength :: "nat \<Rightarrow> 'a \<Rightarrow> ('a ModelBiorbd, unit) prog" where
  "setOptimalLength j v = (\<lambda>self.
     (Inr (), self\<lparr>dyn := (dyn self)\<lparr>optimal_length := (optimal_length (dyn self))(j := v)\<rparr>,
                   calls := calls self @ [Call_setOptimalLength j]\<rparr>))"

definition optimalLength :: "nat \<Rightarrow> ('a ModelBiorbd, 'a) prog" where
  "optimalLength j = bind (engine_call (Call_optimalLength j))
     (\<lambda>_ self. (Inr (optimal_length (dyn self) j), self))"

definition set_muscle_parameters :: "nat \<Rightarrow> 'a \<Rightarrow> ('a ModelBiorbd, unit) prog" where
  "set_muscle_parameters index optimal_length' =
     bind (muscle index) (\<lambda>j. setOptimalLength j optimal_length')"

text \<open>
  \<open>x.to_mx()\<close> on a scalar that the engine returned. A scalar of the symbolic engine
  has this method and gives its expression; a scalar of the numeric engine is a plain
  number and has no such method. On the vectors that the engine returns the source
  calls \<open>to_mx\<close> under \<open>_use_casadi\<close> and \<open>to_array\<close> otherwise, which keep the value;
  on a scalar it calls \<open>to_mx\<close> under \<open>_use_casadi\<close> in \<open>muscle_force\<close> and without
  that guard in \<open>get_muscle_parameter\<close>.
\<close>

definition to_mx :: "'a \<Rightarrow> ('a ModelBiorbd, 'a) prog" where
  "to_mx x = (\<lambda>self. if use_casadi self then (Inr x, self) else (Inl AttributeError, self))"

definition get_muscle_parameter :: "nat \<Rightarrow> MuscleParameter \<Rightarrow> ('a ModelBiorbd, 'a) prog" where
  "get_muscle_parameter index parameter_to_get =
     (if parameter_to_get = OPTIMAL_LENGTH
      then bind (muscle index) (\<lambda>j. bind (optimalLength j) (\<lambda>x. to_mx x))
      else raise UnimplementedParameter)"

section \<open>Indexing\<close>

definition lift :: "error + 'r \<Rightarrow> ('s, 'r) prog" where
  "lift r = (\<lambda>s. (r, s))"

definition get_self :: "('s, 's) prog" where
  "get_self = (\<lambda>s. (Inr s, s))"

text \<open>\<open>x.shape[0]\<close> and \<open>x.shape[1]\<close>; the shape of a one-dimensional array has one entry.\<close>

fun shape0 :: "'a tensor \<Rightarrow> nat" where
  "shape0 (Vec xs) = length xs"
| "shape0 (Mat n cols) = n"

fun shape1 :: "'a tensor \<Rightarrow> error + nat" where
  "shape1 (Vec xs) = Inl IndexError"
| "shape1 (Mat n cols) = Inr (length cols)"

text \<open>\<open>x[:, i]\<close>, \<open>x[j, i]\<close> and \<open>x[j, i] = v\<close> with indices that are not negative.\<close>

fun column :: "'a tensor \<Rightarrow> nat \<Rightarrow> error + 'a list" where
  "column (Vec xs) i = Inl IndexError"
| "column (Mat n cols) i = (if i < length cols then Inr (cols ! i) else Inl IndexError)"

fun item :: "'a tensor \<Rightarrow> nat \<Rightarrow> nat \<Rightarrow> error + 'a" where
  "item (Vec xs) j i = Inl IndexError"
| "item (Mat n cols) j i =
     (if j < n \<and> i < length cols \<and> j < length (cols ! i) then Inr (cols ! i ! j)
      else Inl IndexError)"

fun set_item :: "'a option tensor \<Rightarrow> nat \<Rightarrow> nat \<Rightarrow> 'a \<Rightarrow> error + 'a option tensor" where
  "set_item (Vec xs) j i v = Inl IndexError"
| "set_item (Mat n cols) j i v =
     (if j < n \<and> i < length cols then Inr (Mat n (cols[i := (cols ! i)[j := Some v]]))
      else Inl IndexError)"

text \<open>
  A fresh array of \<open>n\<close> rows and \<open>K\<close> columns: \<open>np.ndarray((n, K))\<close>, and
  \<open>data_type(n, K)\<close> for a symbolic class. No cell has been written yet (\<open>None\<close>); a
  cell that was assigned \<open>v\<close> is \<open>Some v\<close>.
\<close>

definition new_array :: "nat \<Rightarrow> nat \<Rightarrow> 'a option tensor" where
  "new_array n K = Mat n (replicate K (replicate n None))"

text \<open>
  \<open>data_type((n, K))\<close>, the call with one tuple that \<open>muscles_kinematics\<close> and
  \<open>muscle_force_coefficients\<close> make for every \<open>data_type\<close>: for a plain numeric array
  the fresh array of \<open>n\<close> rows and \<open>K\<close> columns; for a symbolic class the constant
  matrix of one column that holds the two numbers \<open>n\<close> and \<open>K\<close>.
\<close>

definition new_array_of_tuple :: "data_type \<Rightarrow> 'a engine \<Rightarrow> nat \<Rightarrow> nat \<Rightarrow> 'a option tensor" where
  "new_array_of_tuple data_type E n K =
     (if data_type = NdArray then new_array n K
      else Mat 2 [[Some (casadi_number E n), Some (casadi_number E K)]])"

text \<open>\<open>x[:, np.newaxis]\<close> of a one-dimensional array.\<close>

fun newaxis :: "'a tensor \<Rightarrow> 'a tensor" where
  "newaxis (Vec xs) = Mat (length xs) [xs]"
| "newaxis (Mat n cols) = Mat n cols"

text \<open>\<open>if len(x.shape) == 1: x = x[:, np.newaxis]\<close>\<close>

definition promote :: "'a tensor \<Rightarrow> 'a tensor" where
  "promote x = (if length (shape x) = 1 then newaxis x else x)"

text \<open>\<open>xs[j]\<close> on a Python list.\<close>

definition list_item :: "'a list \<Rightarrow> nat \<Rightarrow> error + 'a" where
  "list_item xs j = (if j < length xs then Inr (xs ! j) else Inl IndexError)"

section \<open>Muscle index selection\<close>

text \<open>
  Modelled from the spec: the helper \<open>parse_muscle_index\<close> is not among the files at
  hand. The selection is a range over muscle indices, given by its start and its stop,
  and the default is all muscles \<open>0 .. n_muscles\<close>. Indices are natural numbers, so
  \<open>len(range(start, stop))\<close> is the truncating difference \<open>stop - start\<close>; the
  local variable \<open>n_muscles\<close> of the three batch functions, which holds it, is
  written \<open>n_muscles'\<close>.
\<close>

definition parse_muscle_index :: "(nat \<times> nat) option \<Rightarrow> nat \<Rightarrow> nat \<times> nat" where
  "parse_muscle_index muscle_index n =
     (case muscle_index of None \<Rightarrow> (0, n) | Some (start, stop) \<Rightarrow> (start, stop))"

text \<open>
  \<open>list(range(*muscle_index.indices(n)))\<close>: \<open>indices\<close> clips the start and the stop of
  the selection to \<open>n\<close> and gives the step 1.
\<close>

definition indices_list :: "nat \<times> nat \<Rightarrow> nat \<Rightarrow> nat list" where
  "indices_list muscle_index n = [min (fst muscle_index) n ..< min (snd muscle_index) n]"

section \<open>Muscle model adapter\<close>

definition updateMuscles :: "'a list \<Rightarrow> 'a list option \<Rightarrow> ('a ModelBiorbd, unit) prog" where
  "updateMuscles q qdot = (\<lambda>self.
     (Inr (), self\<lparr>dyn := (dyn self)\<lparr>kinematic_cache := Some (q, qdot)\<rparr>,
                   calls := calls self @ [Call_updateMuscles]\<rparr>))"

definition muscle_length :: "nat \<Rightarrow> 'a list \<Rightarrow> ('a ModelBiorbd, 'a) prog" where
  "muscle_length j q = bind (engine_call (Call_length j))
     (\<lambda>_ self. (Inr (eng_length (brbd self) (dyn self) j q), self))"

definition muscle_velocity :: "nat \<Rightarrow> 'a list \<Rightarrow> 'a list \<Rightarrow> ('a ModelBiorbd, 'a) prog" where
  "muscle_velocity j q qdot = bind (engine_call (Call_velocity j))
     (\<lambda>_ self. (Inr (eng_velocity (brbd self) (dyn self) j q qdot), self))"

text \<open>
  The force curves \<open>FlPE\<close>, \<open>FlCE\<close> and \<open>FvCE\<close> are methods of the Hill types; an
  idealized actuator has none of them, and has \<open>force\<close>.
\<close>

definition FlPE :: "nat \<Rightarrow> ('a ModelBiorbd, 'a) prog" where
  "FlPE j = bind get_self (\<lambda>self.
     if muscle_type_id (brbd self) j = IDEALIZED_ACTUATOR then raise AttributeError
     else bind (engine_call (Call_FlPE j))
       (\<lambda>_ self. (Inr (eng_FlPE (brbd self) (dyn self) j), self)))"

definition FlCE :: "nat \<Rightarrow> 'a \<times> 'a \<Rightarrow> ('a ModelBiorbd, 'a) prog" where
  "FlCE j activation = bind get_self (\<lambda>self.
     if muscle_type_id (brbd self) j = IDEALIZED_ACTUATOR then raise AttributeError
     else bind (engine_call (Call_FlCE j))
       (\<lambda>_ self. (Inr (eng_FlCE (brbd self) (dyn self) j activation), self)))"

definition FvCE :: "nat \<Rightarrow> ('a ModelBiorbd, 'a) prog" where
  "FvCE j = bind get_self (\<lambda>self.
     if muscle_type_id (brbd self) j = IDEALIZED_ACTUATOR then raise AttributeError
     else bind (engine_call (Call_FvCE j))
       (\<lambda>_ self. (Inr (eng_FvCE (brbd self) (dyn self) j), self)))"

definition force :: "nat \<Rightarrow> 'a \<times> 'a \<Rightarrow> ('a ModelBiorbd, 'a) prog" where
  "force j activation = bind (engine_call (Call_force j))
     (\<lambda>_ self. (Inr (eng_force (brbd self) (dyn self) j activation), self))"

text \<open>\<open>_upcast_muscle\<close>: the muscle under the evaluator of its declared type.\<close>

definition upcast_muscle :: "nat \<Rightarrow> ('a ModelBiorbd, nat) prog" where
  "upcast_muscle j = (\<lambda>self.
     let muscle_type_id = muscle_type_id (brbd self) j in
     if muscle_type_id = IDEALIZED_ACTUATOR then (Inr j, self)
     else if muscle_type_id = HILL then (Inr j, self)
     else if muscle_type_id = HILL_THELEN then (Inr j, self)
     else if muscle_type_id = HILL_DE_GROOTE then (Inr j, self)
     else (Inl UnsupportedMuscleType, self))"

section \<open>Batch muscle evaluator\<close>

text \<open>\<open>updateMuscles(q[:, i], True)\<close> or \<open>updateMuscles(q[:, i], qdot[:, i], True)\<close>.\<close>

definition update_sample :: "'a tensor \<Rightarrow> 'a tensor option \<Rightarrow> nat \<Rightarrow> ('a ModelBiorbd, unit) prog" where
  "update_sample q qdot i =
     (case qdot of
        None \<Rightarrow> bind (lift (column q i)) (\<lambda>qi. updateMuscles qi None)
      | Some v \<Rightarrow> bind (lift (column q i)) (\<lambda>qi.
                  bind (lift (column v i)) (\<lambda>vi. updateMuscles qi (Some vi))))"

text \<open>
  \<open>out[j, i] = v\<close> for a scalar \<open>v\<close> as the engine returned it, with no \<open>to_mx\<close> and no
  evaluation in between: a scalar of the symbolic engine is an expression, and a
  plain numeric array takes no expression.
\<close>

definition store ::
  "data_type \<Rightarrow> 'a option tensor \<Rightarrow> nat \<Rightarrow> nat \<Rightarrow> 'a \<Rightarrow> ('a ModelBiorbd, 'a option tensor) prog" where
  "store data_type out j i v = (\<lambda>self.
     if use_casadi self \<and> data_type = NdArray then (Inl TypeError, self)
     else (set_item out j i v, self))"

definition kinematics_muscle ::
  "data_type \<Rightarrow> 'a tensor \<Rightarrow> 'a tensor option \<Rightarrow> nat \<Rightarrow> nat \<Rightarrow>
   'a option tensor \<times> 'a option tensor \<Rightarrow>
   ('a ModelBiorbd, 'a option tensor \<times> 'a option tensor) prog" where
  "kinematics_muscle data_type q qdot i j acc =
     (case acc of (lengths, velocities) \<Rightarrow>
        bind (muscle j) (\<lambda>mus.
        bind (lift (column q i)) (\<lambda>qi.
        bind (muscle_length mus qi) (\<lambda>l.
        bind (store data_type lengths j i l) (\<lambda>lengths'.
        case qdot of
          None \<Rightarrow> ret (lengths', velocities)
        | Some v \<Rightarrow>
            bind (muscle j) (\<lambda>mus.
            bind (lift (column q i)) (\<lambda>qi.
            bind (lift (column v i)) (\<lambda>vi.
            bind (muscle_velocity mus qi vi) (\<lambda>w.
            bind (store data_type velocities j i w) (\<lambda>velocities'.
            ret (lengths', velocities')))))))))))"

text \<open>The body of the loop over the samples \<open>i\<close>.\<close>

definition kinematics_sample ::
  "data_type \<Rightarrow> 'a tensor \<Rightarrow> 'a tensor option \<Rightarrow> nat \<Rightarrow> 'a option tensor \<times> 'a option tensor \<Rightarrow>
   ('a ModelBiorbd, 'a option tensor \<times> 'a option tensor) prog" where
  "kinematics_sample data_type q qdot i acc =
     bind (update_sample q qdot i) (\<lambda>_.
     bind get_self (\<lambda>self.
     for_loop [0 ..< nbMuscleTotal (brbd self)] (kinematics_muscle data_type q qdot i) acc))"

definition muscles_kinematics ::
  "'a Vector \<Rightarrow> 'a Vector option \<Rightarrow> (nat \<times> nat) option \<Rightarrow>
   ('a ModelBiorbd, 'a option Vector \<times> 'a option Vector option) prog" where
  "muscles_kinematics q qdot muscle_index =
     (let data_type = type_of q in
      if (case qdot of None \<Rightarrow> False | Some v \<Rightarrow> type_of v \<noteq> data_type)
      then raise TypeMismatch
      else
        bind get_self (\<lambda>self.
        let muscle_index = parse_muscle_index muscle_index (n_muscles self);
            n_muscles' = snd muscle_index - fst muscle_index
        in
        bind (lift (shape1 (data_of q))) (\<lambda>K.
        bind (for_loop [0 ..< K] (kinematics_sample data_type (data_of q) (map_option data_of qdot))
              (new_array_of_tuple data_type (brbd self) n_muscles' K,
               new_array_of_tuple data_type (brbd self) n_muscles' K))
          (\<lambda>(lengths, velocities).
             if qdot = None then ret (Vector data_type lengths, None)
             else ret (Vector data_type lengths, Some (Vector data_type velocities))))))"

definition coefficients_muscle ::
  "data_type \<Rightarrow> 'a tensor \<Rightarrow> 'a tensor option \<Rightarrow> nat \<Rightarrow> nat \<Rightarrow>
   'a option tensor \<times> 'a option tensor \<times> 'a option tensor \<Rightarrow>
   ('a ModelBiorbd, 'a option tensor \<times> 'a option tensor \<times> 'a option tensor) prog" where
  "coefficients_muscle data_type emg qdot i j acc =
     (case acc of (out_flpe, out_flce, out_fvce) \<Rightarrow>
        bind (muscle j) (\<lambda>m.
        bind (upcast_muscle m) (\<lambda>mus.
        bind (lift (item emg j i)) (\<lambda>e.
        let activation = (e, e) in
        bind (FlPE mus) (\<lambda>v.
        bind (store data_type out_flpe j i v) (\<lambda>out_flpe'.
        bind (FlCE mus activation) (\<lambda>v.
        bind (store data_type out_flce j i v) (\<lambda>out_flce'.
        case qdot of
          None \<Rightarrow> ret (out_flpe', out_flce', out_fvce)
        | Some _ \<Rightarrow>
            bind (FvCE mus) (\<lambda>v.
            bind (store data_type out_fvce j i v) (\<lambda>out_fvce'.
            ret (out_flpe', out_flce', out_fvce')))))))))))"

definition coefficients_sample ::
  "data_type \<Rightarrow> 'a tensor \<Rightarrow> 'a tensor \<Rightarrow> 'a tensor option \<Rightarrow> nat \<times> nat \<Rightarrow> nat \<Rightarrow>
   'a option tensor \<times> 'a option tensor \<times> 'a option tensor \<Rightarrow>
   ('a ModelBiorbd, 'a option tensor \<times> 'a option tensor \<times> 'a option tensor) prog" where
  "coefficients_sample data_type emg q qdot muscle_index i acc =
     bind (update_sample q qdot i) (\<lambda>_.
     for_loop [fst muscle_index ..< snd muscle_index]
       (coefficients_muscle data_type emg qdot i) acc)"

definition muscle_force_coefficients ::
  "'a Vector \<Rightarrow> 'a Vector \<Rightarrow> 'a Vector option \<Rightarrow> (nat \<times> nat) option \<Rightarrow>
   ('a ModelBiorbd, 'a option Vector \<times> 'a option Vector \<times> 'a option Vector option) prog" where
  "muscle_force_coefficients emg q qdot muscle_index =
     (let data_type = type_of emg in
      if type_of q \<noteq> data_type \<or> (case qdot of None \<Rightarrow> False | Some v \<Rightarrow> type_of v \<noteq> data_type)
      then raise TypeMismatch
      else
        bind get_self (\<lambda>self.
        let muscle_index = parse_muscle_index muscle_index (n_muscles self);
            q = promote (data_of q);
            qdot = map_option (\<lambda>v. promote (data_of v)) qdot;
            n_muscles' = snd muscle_index - fst muscle_index
        in
        bind (lift (shape1 q)) (\<lambda>K.
        bind (for_loop [0 ..< K] (coefficients_sample data_type (data_of emg) q qdot muscle_index)
              (new_array_of_tuple data_type (brbd self) n_muscles' K,
               new_array_of_tuple data_type (brbd self) n_muscles' K,
               new_array_of_tuple data_type (brbd self) n_muscles' K))
          (\<lambda>(out_flpe, out_flce, out_fvce).
             if qdot = None
             then ret (Vector data_type out_flpe, Vector data_type out_flce, None)
             else ret (Vector data_type out_flpe, Vector data_type out_flce,
                       Some (Vector data_type out_fvce))))))"

text \<open>
  In \<open>muscle_force\<close> the force of the symbolic engine goes through \<open>to_mx\<close>, and for a
  plain numeric array through the evaluation to a number, before it is assigned.
\<close>

definition force_muscle ::
  "data_type \<Rightarrow> 'a tensor \<Rightarrow> nat list \<Rightarrow> nat \<Rightarrow> nat \<Rightarrow> 'a option tensor \<Rightarrow>
   ('a ModelBiorbd, 'a option tensor) prog" where
  "force_muscle data_type emg muscle_index i j out_force =
     bind (lift (list_item muscle_index j)) (\<lambda>k.
     bind (muscle k) (\<lambda>m.
     bind (upcast_muscle m) (\<lambda>mus.
     bind (lift (item emg j i)) (\<lambda>e.
     let activation = (e, e) in
     bind (force mus activation) (\<lambda>force_tp.
     bind get_self (\<lambda>self.
     let force_tp =
           (if use_casadi self
            then (if data_type = NdArray then casadi_eval (brbd self) force_tp else force_tp)
            else force_tp)
     in lift (set_item out_force j i force_tp)))))))"

definition force_sample ::
  "data_type \<Rightarrow> 'a tensor \<Rightarrow> 'a tensor \<Rightarrow> 'a tensor \<Rightarrow> nat list \<Rightarrow> nat \<Rightarrow> nat \<Rightarrow>
   'a option tensor \<Rightarrow> ('a ModelBiorbd, 'a option tensor) prog" where
  "force_sample data_type emg q qdot muscle_index n_muscles' i out_force =
     bind (update_sample q (Some qdot) i) (\<lambda>_.
     for_loop [0 ..< n_muscles'] (force_muscle data_type emg muscle_index i) out_force)"

definition muscle_force ::
  "'a Vector \<Rightarrow> 'a Vector \<Rightarrow> 'a Vector \<Rightarrow> (nat \<times> nat) option \<Rightarrow>
   ('a ModelBiorbd, 'a option Vector) prog" where
  "muscle_force emg q qdot muscle_index =
     (let data_type = type_of emg in
      if type_of q \<noteq> data_type \<or> type_of qdot \<noteq> data_type
      then raise TypeMismatch
      else
        bind get_self (\<lambda>self.
        let emg = promote (data_of emg);
            muscle_index = parse_muscle_index muscle_index (n_muscles self);
            q = promote (data_of q);
            qdot = promote (data_of qdot);
            n_muscles' = snd muscle_index - fst muscle_index;
            muscle_index = indices_list muscle_index n_muscles'
        in
        bind (lift (shape1 q)) (\<lambda>K.
        bind (for_loop [0 ..< K] (force_sample data_type emg q qdot muscle_index n_muscles')
              (new_array n_muscles' K))
          (\<lambda>out_force. ret (Vector data_type out_force)))))"

section \<open>Dynamics function\<close>

text \<open>
  The enumerations \<open>ControlsTypes\<close> and \<open>IntegrationMethods\<close> are declared outside the
  files at hand; the source names the members below, and every other value a caller
  can pass is \<open>OTHER_CONTROL\<close> or \<open>OTHER_METHOD\<close>.
\<close>

datatype ControlsTypes = EMG | TORQUE | OTHER_CONTROL

datatype IntegrationMethods = RK45 | RK4 | OTHER_METHOD

text \<open>\<open>x[: n]\<close> and \<open>x[n :]\<close> slice the leading dimension.\<close>

fun slice_to :: "nat \<Rightarrow> 'a tensor \<Rightarrow> 'a tensor" where
  "slice_to n (Vec xs) = Vec (take n xs)"
| "slice_to n (Mat r cols) = Mat (min n r) (map (take n) cols)"

fun slice_from :: "nat \<Rightarrow> 'a tensor \<Rightarrow> 'a tensor" where
  "slice_from n (Vec xs) = Vec (drop n xs)"
| "slice_from n (Mat r cols) = Mat (r - n) (map (drop n) cols)"

text \<open>
  Modelled from the spec: the helper \<open>concatenate\<close> is not among the files at hand. The
  state vector is the concatenation of pose and velocity: the entries of the first
  array followed by those of the second, sample by sample for a batch. Arrays of a
  different number of dimensions or of columns cannot be stacked.
\<close>

fun concatenate :: "'a tensor \<Rightarrow> 'a tensor \<Rightarrow> error + 'a tensor" where
  "concatenate (Vec xs) (Vec ys) = Inr (Vec (xs @ ys))"
| "concatenate (Mat n xs) (Mat m ys) =
     (if length xs = length ys then Inr (Mat (n + m) (map2 (@) xs ys)) else Inl ConcatenateError)"
| "concatenate _ _ = Inl ConcatenateError"

definition ForwardDynamics :: "'a tensor \<Rightarrow> 'a tensor \<Rightarrow> 'a tensor \<Rightarrow> ('a ModelBiorbd, 'a tensor) prog" where
  "ForwardDynamics q qdot tau = bind (engine_call Call_ForwardDynamics)
     (\<lambda>_ self. (Inr (eng_ForwardDynamics (brbd self) (dyn self) q qdot tau), self))"

definition stateSet :: "('a ModelBiorbd, ('a \<times> 'a) list) prog" where
  "stateSet = bind (engine_call Call_stateSet) (\<lambda>_ self. (Inr (state_set (dyn self)), self))"

definition muscularJointTorque ::
  "('a \<times> 'a) list \<Rightarrow> 'a tensor \<Rightarrow> 'a tensor \<Rightarrow> ('a ModelBiorbd, 'a tensor) prog" where
  "muscularJointTorque states q qdot = bind (engine_call Call_muscularJointTorque)
     (\<lambda>_ self. (Inr (eng_muscularJointTorque (brbd self) (dyn self) states q qdot), self))"

text \<open>\<open>_forward_dynamics(t, x, tau)\<close>; the time \<open>t\<close> is not read.\<close>

definition priv_forward_dynamics :: "'a tensor \<Rightarrow> 'a tensor \<Rightarrow> ('a ModelBiorbd, 'a tensor) prog" where
  "priv_forward_dynamics x tau =
     bind get_self (\<lambda>self.
     let q = slice_to (n_q self) x;
         qdot = slice_from (n_q self) x
     in
     bind (ForwardDynamics q qdot tau) (\<lambda>qddot.
     lift (concatenate qdot qddot)))"

text \<open>
  \<open>_forward_dynamics_muscles(t, x, emg)\<close>; neither the time \<open>t\<close> nor \<open>emg\<close> is read: the
  loop that would set the activations from \<open>emg\<close> is commented out in the source.
\<close>

definition priv_forward_dynamics_muscles ::
  "'a tensor \<Rightarrow> 'a tensor \<Rightarrow> ('a ModelBiorbd, 'a tensor) prog" where
  "priv_forward_dynamics_muscles x emg =
     bind get_self (\<lambda>self.
     let q = slice_to (n_q self) x;
         qdot = slice_from (n_q self) x
     in
     bind stateSet (\<lambda>states.
     bind (muscularJointTorque states q qdot) (\<lambda>tau.
     priv_forward_dynamics x tau)))"

definition forward_dynamics ::
  "'a Vector \<Rightarrow> 'a Vector \<Rightarrow> 'a Vector \<Rightarrow> ControlsTypes \<Rightarrow>
   ('a ModelBiorbd, 'a tensor \<times> 'a tensor) prog" where
  "forward_dynamics q qdot controls controls_type =
     (let data_type = type_of q in
      if type_of qdot \<noteq> data_type \<or> type_of controls \<noteq> data_type
      then raise TypeMismatch
      else
        bind get_self (\<lambda>self.
        bind (if controls_type = EMG then
                (if shape0 (data_of controls) \<noteq> n_muscles self
                 then raise (DimensionMismatch (n_muscles self) (shape0 (data_of controls)))
                 else ret (\<lambda>x. priv_forward_dynamics_muscles x (data_of controls)))
              else if controls_type = TORQUE then
                (if shape0 (data_of controls) \<noteq> n_q self
                 then raise (DimensionMismatch (n_q self) (shape0 (data_of controls)))
                 else ret (\<lambda>x. priv_forward_dynamics x (data_of controls)))
              else raise UnsupportedControlType) (\<lambda>func.
        bind (lift (concatenate (data_of q) (data_of qdot))) (\<lambda>x.
        bind (func x) (\<lambda>results.
        ret (slice_to (n_q self) results, slice_from (n_q self) results))))))"

section \<open>Trajectory integrator\<close>

text \<open>
  The numerical solver \<open>solve_ivp\<close> is external and is a parameter: it is given the
  dynamics function, the time span, the initial state, the name of the method and
  the times to sample, it may call the dynamics function any number of times, and it
  gives back the array \<open>results.y\<close>.
\<close>

type_synonym 'a solver =
  "('a \<Rightarrow> 'a tensor \<Rightarrow> ('a ModelBiorbd, 'a tensor) prog) \<Rightarrow> 'a \<times> 'a \<Rightarrow> 'a tensor \<Rightarrow> string \<Rightarrow>
   'a list \<Rightarrow> ('a ModelBiorbd, 'a tensor) prog"

text \<open>\<open>x[: n, :]\<close> and \<open>x[n :, :]\<close> of a two-dimensional array.\<close>

fun rows_to :: "nat \<Rightarrow> 'a tensor \<Rightarrow> error + 'a tensor" where
  "rows_to n (Vec xs) = Inl IndexError"
| "rows_to n (Mat r cols) = Inr (Mat (min n r) (map (take n) cols))"

fun rows_from :: "nat \<Rightarrow> 'a tensor \<Rightarrow> error + 'a tensor" where
  "rows_from n (Vec xs) = Inl IndexError"
| "rows_from n (Mat r cols) = Inr (Mat (r - n) (map (drop n) cols))"

definition integrate ::
  "'a solver \<Rightarrow> 'a list \<Rightarrow> 'a Vector \<Rightarrow> 'a Vector \<Rightarrow> ControlsTypes \<Rightarrow> IntegrationMethods \<Rightarrow>
   ('a ModelBiorbd, 'a tensor \<times> 'a tensor) prog" where
  "integrate solve_ivp t states controls controls_type integration_method =
     (let data_type = type_of states in
      if type_of controls \<noteq> data_type
      then raise TypeMismatch
      else
        bind get_self (\<lambda>self.
        bind (if controls_type = EMG then
                (if shape0 (data_of controls) \<noteq> n_muscles self
                 then raise (DimensionMismatch (n_muscles self) (shape0 (data_of controls)))
                 else ret (\<lambda>t x. priv_forward_dynamics_muscles x (data_of controls)))
              else if controls_type = TORQUE then
                (if shape0 (data_of controls) \<noteq> n_q self
                 then raise (DimensionMismatch (n_q self) (shape0 (data_of controls)))
                 else ret (\<lambda>t x. priv_forward_dynamics x (data_of controls)))
              else raise UnsupportedControlType) (\<lambda>func.
        bind (if integration_method = RK45 then ret ''RK45''
              else if integration_method = RK4 then ret ''RK4''
              else raise UnsupportedIntegrationMethod) (\<lambda>method.
        bind (if t = [] then raise IndexError else ret (hd t, last t)) (\<lambda>t_span.
        bind (solve_ivp func t_span (data_of states) method t) (\<lambda>y.
        bind (lift (rows_to (n_q self) y)) (\<lambda>q.
        bind (lift (rows_from (n_q self) y)) (\<lambda>qdot.
        ret (q, qdot)))))))))"

section \<open>Sequences of calls\<close>

text \<open>
  A call of one of the operations on the model, with its arguments; \<open>after\<close> is the
  model a call leaves behind, whether it returned or raised.
\<close>

datatype 'a operation =
    Op_muscles_kinematics "'a Vector" "'a Vector option" "(nat \<times> nat) option"
  | Op_muscle_force_coefficients "'a Vector" "'a Vector" "'a Vector option" "(nat \<times> nat) option"
  | Op_muscle_force "'a Vector" "'a Vector" "'a Vector" "(nat \<times> nat) option"
  | Op_set_muscle_parameters nat 'a
  | Op_get_muscle_parameter nat MuscleParameter
  | Op_forward_dynamics "'a Vector" "'a Vector" "'a Vector" ControlsTypes

fun after :: "'a operation \<Rightarrow> 'a ModelBiorbd \<Rightarrow> 'a ModelBiorbd" where
  "after (Op_muscles_kinematics q qdot muscle_index) self =
     snd (muscles_kinematics q qdot muscle_index self)"
| "after (Op_muscle_force_coefficients emg q qdot muscle_index) self =
     snd (muscle_force_coefficients emg q qdot muscle_index self)"
| "after (Op_muscle_force emg q qdot muscle_index) self =
     snd (muscle_force emg q qdot muscle_index self)"
| "after (Op_set_muscle_parameters index v) self = snd (set_muscle_parameters index v self)"
| "after (Op_get_muscle_parameter index parameter_to_get) self =
     snd (get_muscle_parameter index parameter_to_get self)"
| "after (Op_forward_dynamics q qdot controls controls_type) self =
     snd (forward_dynamics q qdot controls controls_type self)"

fun after_all :: "'a operation list \<Rightarrow> 'a ModelBiorbd \<Rightarrow> 'a ModelBiorbd" where
  "after_all [] self = self"
| "after_all (op # ops) self = after_all ops (after op self)"

fun sets_muscle :: "nat \<Rightarrow> 'a operation \<Rightarrow> bool" where
  "sets_muscle index (Op_set_muscle_parameters j v) = (j = index)"
| "sets_muscle index _ = False"

section \<open>Notions used in the statements\<close>

text \<open>The number of selected muscles: the length of the parsed range.\<close>

definition selected :: "(nat \<times> nat) option \<Rightarrow> 'a ModelBiorbd \<Rightarrow> nat" where
  "selected muscle_index self =
     (snd (parse_muscle_index muscle_index (n_muscles self))
      - fst (parse_muscle_index muscle_index (n_muscles self)))"

text \<open>An argument with its one-dimensional array made a one-column matrix.\<close>

definition promoted :: "'a Vector \<Rightarrow> 'a Vector" where
  "promoted x = Vector (type_of x) (promote (data_of x))"

text \<open>A two-dimensional array of at least \<open>K\<close> columns.\<close>

definition has_columns :: "'a tensor \<Rightarrow> nat \<Rightarrow> bool" where
  "has_columns x K = (case shape1 x of Inl _ \<Rightarrow> False | Inr K' \<Rightarrow> K \<le> K')"

text \<open>
  A two-dimensional array that holds the entries \<open>[j, i]\<close> for all \<open>j < n\<close> and
  \<open>i < K\<close>.
\<close>

fun covers :: "'a tensor \<Rightarrow> nat \<Rightarrow> nat \<Rightarrow> bool" where
  "covers (Vec xs) n K = False"
| "covers (Mat r cols) n K =
     (n \<le> r \<and> K \<le> length cols \<and> list_all (\<lambda>c. n \<le> length c) (take K cols))"

text \<open>The first \<open>n\<close> muscles are of a type that \<open>_upcast_muscle\<close> knows.\<close>

definition supported :: "'a ModelBiorbd \<Rightarrow> nat \<Rightarrow> bool" where
  "supported self n = list_all (\<lambda>j. muscle_type_id (brbd self) j \<noteq> OTHER_MUSCLE_TYPE) [0 ..< n]"

text \<open>The first \<open>n\<close> muscles are of a Hill type, which has the force curves.\<close>

definition hill_type :: "'a ModelBiorbd \<Rightarrow> nat \<Rightarrow> bool" where
  "hill_type self n =
     list_all (\<lambda>j. muscle_type_id (brbd self) j \<in> {HILL, HILL_THELEN, HILL_DE_GROOTE}) [0 ..< n]"

definition shapes2 :: "'a tensor \<times> 'a tensor \<Rightarrow> nat list \<times> nat list" where
  "shapes2 acc = (case acc of (a, b) \<Rightarrow> (shape a, shape b))"

definition shapes3 :: "'a tensor \<times> 'a tensor \<times> 'a tensor \<Rightarrow> nat list \<times> nat list \<times> nat list" where
  "shapes3 acc = (case acc of (a, b, c) \<Rightarrow> (shape a, shape b, shape c))"

text \<open>A statement returns from the state \<open>s\<close>, with a result and a state that satisfy \<open>Q\<close>.\<close>

definition succeeds :: "('s, 'r) prog \<Rightarrow> 's \<Rightarrow> ('r \<Rightarrow> 's \<Rightarrow> bool) \<Rightarrow> bool" where
  "succeeds m s Q = (case m s of (Inr x, s') \<Rightarrow> Q x s' | (Inl e, s') \<Rightarrow> False)"

text \<open>A statement leaves the observation \<open>f\<close> of the state as it was, however it ends.\<close>

definition keeps :: "('s \<Rightarrow> 'x) \<Rightarrow> ('s, 'r) prog \<Rightarrow> bool" where
  "keeps f m = (\<forall>s. f (snd (m s)) = f s)"

text \<open>The engine and the kind of engine: what no operation changes.\<close>

definition static :: "'a ModelBiorbd \<Rightarrow> 'a engine \<times> bool" where
  "static self = (brbd self, use_casadi self)"

text \<open>The optimal length of one muscle, the engine and the kind of engine.\<close>

definition kept :: "nat \<Rightarrow> 'a ModelBiorbd \<Rightarrow> 'a \<times> 'a engine \<times> bool" where
  "kept index self = (optimal_length (dyn self) index, static self)"

section \<open>A small model to evaluate on\<close>

text \<open>
  Two degrees of freedom and five Hill-type muscles over the integers; the engine's
  computations are simple arithmetic.
\<close>

definition example_engine :: "int engine" where
  "example_engine =
     \<lparr> nbQ = 2, nbMuscleTotal = 5, muscle_type_id = (\<lambda>j. HILL),
       eng_length = (\<lambda>d j q. int j + sum_list q),
       eng_velocity = (\<lambda>d j q v. int j * sum_list v),
       eng_FlPE = (\<lambda>d j. optimal_length d j),
       eng_FlCE = (\<lambda>d j a. fst a + int j),
       eng_FvCE = (\<lambda>d j. case kinematic_cache d of Some (q, Some v) \<Rightarrow> sum_list v | _ \<Rightarrow> 0),
       eng_force = (\<lambda>d j a. fst a * optimal_length d j),
       eng_ForwardDynamics = (\<lambda>d q qdot tau. tau),
       eng_muscularJointTorque = (\<lambda>d st q qdot. q),
       casadi_eval = (\<lambda>x. x), casadi_number = int \<rparr>"

definition example_model :: "int ModelBiorbd" where
  "example_model =
     \<lparr> use_casadi = False, brbd = example_engine,
       dyn = \<lparr> kinematic_cache = None, optimal_length = (\<lambda>j. 10 + int j), state_set = [] \<rparr>,
       calls = [] \<rparr>"

text \<open>The same model on the symbolic engine.\<close>

definition example_casadi_model :: "int ModelBiorbd" where
  "example_casadi_model = example_model\<lparr>use_casadi := True\<rparr>"

text \<open>
  A solver that knows the method names of \<open>scipy.integrate.solve_ivp\<close>, refuses any
  other name as that function does, and samples nothing but the initial state.
\<close>

definition example_solver :: "int solver" where
  "example_solver func t_span y0 method t_eval =
     (if method \<in> set [''RK23'', ''RK45'', ''DOP853'', ''Radau'', ''BDF'', ''LSODA'']
      then (case y0 of Vec xs \<Rightarrow> ret (Mat (length xs) [xs]) | Mat n cols \<Rightarrow> ret (Mat n cols))
      else raise SolverError)"

section \<open>Properties\<close>

lemmas prog_defs = ret_def raise_def bind_def lift_def get_self_def engine_call_def

lemmas eval_defs =
  muscles_kinematics_def muscle_force_coefficients_def muscle_force_def
  kinematics_muscle_def coefficients_muscle_def force_muscle_def update_sample_def
  kinematics_sample_def coefficients_sample_def force_sample_def
  parse_muscle_index_def indices_list_def new_array_def promote_def list_item_def
  updateMuscles_def muscle_length_def muscle_velocity_def FlPE_def FlCE_def FvCE_def force_def
  upcast_muscle_def muscle_def n_muscles_def n_q_def store_def new_array_of_tuple_def

subsection \<open>What a statement leaves unchanged\<close>

lemma keeps_ret: "keeps f (ret x)"
  by (simp add: keeps_def ret_def)

lemma keeps_raise: "keeps f (raise e)"
  by (simp add: keeps_def raise_def)

lemma keeps_lift: "keeps f (lift r)"
  by (simp add: keeps_def lift_def)

lemma keeps_get_self: "keeps f get_self"
  by (simp add: keeps_def get_self_def)

lemma keeps_bind: "keeps f m \<Longrightarrow> (\<And>x. keeps f (g x)) \<Longrightarrow> keeps f (bind m g)"
  by (auto simp: keeps_def bind_def split: prod.splits sum.splits) (metis snd_conv)+

lemma keeps_for_loop: "(\<And>i acc. keeps f (body i acc)) \<Longrightarrow> keeps f (for_loop js body acc)"
  by (induction js arbitrary: acc) (simp_all add: keeps_ret keeps_bind)

lemma keeps_if: "(c \<Longrightarrow> keeps f a) \<Longrightarrow> (\<not> c \<Longrightarrow> keeps f b) \<Longrightarrow> keeps f (if c then a else b)"
  by simp

lemma keeps_case_option:
  "(x = None \<Longrightarrow> keeps f a) \<Longrightarrow> (\<And>v. x = Some v \<Longrightarrow> keeps f (b v)) \<Longrightarrow>
   keeps f (case x of None \<Rightarrow> a | Some v \<Rightarrow> b v)"
  by (cases x) simp_all

lemma keeps_case_prod: "(\<And>a b. keeps f (g a b)) \<Longrightarrow> keeps f (case p of (a, b) \<Rightarrow> g a b)"
  by (cases p) simp

lemma keeps_engine_call: "keeps (kept index) (engine_call c)"
  by (simp add: keeps_def engine_call_def kept_def static_def)

lemma keeps_reader: "keeps (kept index) (\<lambda>self. (g self, self))"
  by (simp add: keeps_def)

lemma keeps_muscle: "keeps (kept index) (muscle j)"
  unfolding muscle_def by (intro keeps_bind keeps_engine_call) (simp add: keeps_def)

lemma keeps_upcast_muscle: "keeps (kept index) (upcast_muscle j)"
  by (simp add: keeps_def upcast_muscle_def Let_def)

lemma keeps_updateMuscles: "keeps (kept index) (updateMuscles q qdot)"
  by (simp add: keeps_def updateMuscles_def kept_def static_def)

lemma keeps_to_mx: "keeps (kept index) (to_mx x)"
  by (simp add: keeps_def to_mx_def)

lemma keeps_store: "keeps (kept index) (store data_type out j i v)"
  by (simp add: keeps_def store_def)

lemma keeps_engine_reads:
  "keeps (kept index) (muscle_length j q)"
  "keeps (kept index) (muscle_velocity j q v)"
  "keeps (kept index) (FlPE j)"
  "keeps (kept index) (FlCE j a)"
  "keeps (kept index) (FvCE j)"
  "keeps (kept index) (force j a)"
  "keeps (kept index) (optimalLength j)"
  "keeps (kept index) stateSet"
  "keeps (kept index) (muscularJointTorque st x y)"
  "keeps (kept index) (ForwardDynamics x y z)"
  unfolding muscle_length_def muscle_velocity_def FlPE_def FlCE_def FvCE_def force_def
    optimalLength_def stateSet_def muscularJointTorque_def ForwardDynamics_def
  by (intro keeps_bind keeps_get_self keeps_if keeps_raise keeps_engine_call keeps_reader)+

lemmas keeps_intros =
  keeps_ret keeps_raise keeps_lift keeps_get_self keeps_bind keeps_for_loop keeps_if
  keeps_case_option keeps_case_prod keeps_engine_call keeps_muscle keeps_upcast_muscle
  keeps_updateMuscles keeps_to_mx keeps_store keeps_engine_reads

lemma keeps_update_sample: "keeps (kept index) (update_sample q qdot i)"
  unfolding update_sample_def by (intro keeps_intros)

lemma keeps_kinematics_muscle: "keeps (kept index) (kinematics_muscle data_type q qdot i j acc)"
  unfolding kinematics_muscle_def by (intro keeps_intros)

lemma keeps_kinematics_sample: "keeps (kept index) (kinematics_sample data_type q qdot i acc)"
  unfolding kinematics_sample_def by (intro keeps_intros keeps_update_sample keeps_kinematics_muscle)

lemma keeps_muscles_kinematics: "keeps (kept index) (muscles_kinematics q qdot muscle_index)"
  unfolding muscles_kinematics_def Let_def by (intro keeps_intros keeps_kinematics_sample)

lemma keeps_coefficients_muscle:
  "keeps (kept index) (coefficients_muscle data_type emg qdot i j acc)"
  unfolding coefficients_muscle_def Let_def by (intro keeps_intros)

lemma keeps_coefficients_sample:
  "keeps (kept index) (coefficients_sample data_type emg q qdot muscle_index i acc)"
  unfolding coefficients_sample_def
  by (intro keeps_intros keeps_update_sample keeps_coefficients_muscle)

lemma keeps_muscle_force_coefficients:
  "keeps (kept index) (muscle_force_coefficients emg q qdot muscle_index)"
  unfolding muscle_force_coefficients_def Let_def
  by (intro keeps_intros keeps_coefficients_sample)

lemma keeps_force_muscle: "keeps (kept index) (force_muscle data_type emg muscle_index i j out)"
  unfolding force_muscle_def Let_def by (intro keeps_intros)

lemma keeps_force_sample:
  "keeps (kept index) (force_sample data_type emg q qdot muscle_index n i out)"
  unfolding force_sample_def by (intro keeps_intros keeps_update_sample keeps_force_muscle)

lemma keeps_muscle_force: "keeps (kept index) (muscle_force emg q qdot muscle_index)"
  unfolding muscle_force_def Let_def by (intro keeps_intros keeps_force_sample)

lemma keeps_priv_forward_dynamics: "keeps (kept index) (priv_forward_dynamics x tau)"
  unfolding priv_forward_dynamics_def Let_def by (intro keeps_intros)

lemma keeps_priv_forward_dynamics_muscles: "keeps (kept index) (priv_forward_dynamics_muscles x emg)"
  unfolding priv_forward_dynamics_muscles_def Let_def
  by (intro keeps_intros keeps_priv_forward_dynamics)

lemma bind_if: "bind (if c then a else b) g = (if c then bind a g else bind b g)"
  by simp

lemma bind_ret_left: "bind (ret x) g = g x"
  by (simp add: bind_def ret_def)

lemma bind_raise_left: "bind (raise e) g = raise e"
  by (simp add: bind_def raise_def)

lemma keeps_forward_dynamics:
  "keeps (kept index) (forward_dynamics q qdot controls controls_type)"
  unfolding forward_dynamics_def Let_def bind_if bind_ret_left bind_raise_left
  by (intro keeps_intros keeps_priv_forward_dynamics keeps_priv_forward_dynamics_muscles)

lemma keeps_get_muscle_parameter:
  "keeps (kept index) (get_muscle_parameter j parameter_to_get)"
  unfolding get_muscle_parameter_def by (intro keeps_intros)

lemma keeps_set_other:
  "j \<noteq> index \<Longrightarrow> keeps (kept index) (set_muscle_parameters j v)"
  by (simp add: keeps_def set_muscle_parameters_def muscle_def setOptimalLength_def kept_def
        static_def prog_defs)

lemmas kept_after =
  keeps_muscles_kinematics [unfolded keeps_def, rule_format]
  keeps_muscle_force_coefficients [unfolded keeps_def, rule_format]
  keeps_muscle_force [unfolded keeps_def, rule_format]
  keeps_get_muscle_parameter [unfolded keeps_def, rule_format]
  keeps_forward_dynamics [unfolded keeps_def, rule_format]

lemma after_kept:
  "\<not> sets_muscle index op \<Longrightarrow> kept index (after op self) = kept index self"
proof (cases op)
  case (Op_set_muscle_parameters j v)
  assume "\<not> sets_muscle index op"
  with Op_set_muscle_parameters have "j \<noteq> index" by simp
  then have "keeps (kept index) (set_muscle_parameters j v)"
    by (rule keeps_set_other)
  with Op_set_muscle_parameters show ?thesis
    by (simp add: keeps_def)
qed (simp_all add: kept_after)

lemma after_all_kept:
  "list_all (\<lambda>op. \<not> sets_muscle index op) ops \<Longrightarrow>
   kept index (after_all ops self) = kept index self"
  by (induction ops arbitrary: self) (simp_all add: after_kept)

lemma get_of_kept:
  "kept index self = (v, E, c) \<Longrightarrow> index < nbMuscleTotal E \<Longrightarrow>
   fst (get_muscle_parameter index OPTIMAL_LENGTH self)
     = (if c then Inr v else Inl AttributeError)"
  by (auto simp: kept_def static_def get_muscle_parameter_def muscle_def optimalLength_def
        to_mx_def prog_defs)

subsection \<open>Parameter accessor\<close>

text \<open>
  Claim C7. For every muscle index and every parameter kind other than the optimal
  fibre length, \<open>get_muscle_parameter\<close> raises the Unimplemented error and returns the
  model as it was, without a call into the engine. For the optimal fibre length and a
  muscle of the model, it returns that muscle's current optimal length on the symbolic
  engine, and changes neither the engine's mutable part nor the engine. On the
  numeric engine, which is the default of \<open>ModelBiorbd\<close>, it returns nothing: the
  optimal length that the engine gives is a plain number, and the call of \<open>to_mx\<close> on
  it, which no \<open>_use_casadi\<close> guards here, ends in an AttributeError.
\<close>

theorem get_muscle_parameter_kinds:
  "(parameter_to_get \<noteq> OPTIMAL_LENGTH \<longrightarrow>
      get_muscle_parameter index parameter_to_get self = (Inl UnimplementedParameter, self))
   \<and> (index < n_muscles self \<and> use_casadi self \<longrightarrow>
        fst (get_muscle_parameter index OPTIMAL_LENGTH self) = Inr (optimal_length (dyn self) index)
      \<and> dyn (snd (get_muscle_parameter index OPTIMAL_LENGTH self)) = dyn self
      \<and> brbd (snd (get_muscle_parameter index OPTIMAL_LENGTH self)) = brbd self)
   \<and> (index < n_muscles self \<and> \<not> use_casadi self \<longrightarrow>
        fst (get_muscle_parameter index OPTIMAL_LENGTH self) = Inl AttributeError
      \<and> dyn (snd (get_muscle_parameter index OPTIMAL_LENGTH self)) = dyn self)"
  by (simp add: get_muscle_parameter_def muscle_def optimalLength_def to_mx_def n_muscles_def
        prog_defs)

theorem get_muscle_parameter_kinds_witness:
  "OTHER_PARAMETER \<noteq> OPTIMAL_LENGTH
   \<and> get_muscle_parameter 1 OTHER_PARAMETER example_model = (Inl UnimplementedParameter, example_model)
   \<and> 1 < n_muscles example_casadi_model \<and> use_casadi example_casadi_model
   \<and> fst (get_muscle_parameter 1 OPTIMAL_LENGTH example_casadi_model) = Inr 11
   \<and> 1 < n_muscles example_model \<and> \<not> use_casadi example_model
   \<and> fst (get_muscle_parameter 1 OPTIMAL_LENGTH example_model) = Inl AttributeError"
  using get_muscle_parameter_kinds [of OTHER_PARAMETER 1 example_model]
    get_muscle_parameter_kinds [of OPTIMAL_LENGTH 1 example_casadi_model]
  by (simp add: example_casadi_model_def example_model_def example_engine_def n_muscles_def)

text \<open>
  Claim C8. Round trip of the parameter accessor, for every muscle of the model and
  every value \<open>v\<close>: \<open>set_muscle_parameters\<close> succeeds, and after any sequence of further
  calls of the batch evaluator, of \<open>forward_dynamics\<close>, of \<open>get_muscle_parameter\<close> and
  of \<open>set_muscle_parameters\<close> for other muscles, whether they return or raise, the
  engine still holds \<open>v\<close> as the optimal length of that muscle. \<open>get_muscle_parameter\<close>
  for it returns \<open>v\<close> on the symbolic engine; on the numeric engine it raises the
  AttributeError of the unguarded \<open>to_mx\<close>, so that no query gives the value back.
\<close>

theorem set_then_get:
  assumes "index < n_muscles self"
    and "list_all (\<lambda>op. \<not> sets_muscle index op) ops"
  shows "fst (set_muscle_parameters index v self) = Inr ()
       \<and> optimal_length (dyn (after_all ops (snd (set_muscle_parameters index v self)))) index = v
       \<and> fst (get_muscle_parameter index OPTIMAL_LENGTH
                (after_all ops (snd (set_muscle_parameters index v self))))
           = (if use_casadi self then Inr v else Inl AttributeError)"
proof -
  let ?s = "snd (set_muscle_parameters index v self)"
  from assms(1) have ok: "fst (set_muscle_parameters index v self) = Inr ()"
    by (simp add: set_muscle_parameters_def muscle_def setOptimalLength_def n_muscles_def prog_defs)
  from assms(1) have "kept index ?s = (v, brbd self, use_casadi self)"
    by (simp add: set_muscle_parameters_def muscle_def setOptimalLength_def n_muscles_def
          prog_defs kept_def static_def)
  with assms(2) have k: "kept index (after_all ops ?s) = (v, brbd self, use_casadi self)"
    by (simp add: after_all_kept)
  then have stored: "optimal_length (dyn (after_all ops ?s)) index = v"
    by (simp add: kept_def)
  from k assms(1)
  have "fst (get_muscle_parameter index OPTIMAL_LENGTH (after_all ops ?s))
          = (if use_casadi self then Inr v else Inl AttributeError)"
    by (intro get_of_kept [where E = "brbd self"]) (simp_all add: n_muscles_def)
  with ok stored show ?thesis by simp
qed

theorem set_then_get_witness:
  "2 < n_muscles example_model
   \<and> list_all (\<lambda>op. \<not> sets_muscle 2 op)
        [Op_get_muscle_parameter 2 OPTIMAL_LENGTH,
         Op_muscles_kinematics (Vector NdArray (Mat 2 [[1, 2]])) None None,
         Op_set_muscle_parameters 1 7,
         Op_forward_dynamics (Vector NdArray (Vec [1, 2])) (Vector NdArray (Vec [3, 4]))
           (Vector NdArray (Vec [0, 0])) TORQUE]
   \<and> fst (set_muscle_parameters 2 42 example_model) = Inr ()
   \<and> fst (get_muscle_parameter 2 OPTIMAL_LENGTH (snd (set_muscle_parameters 2 42 example_model)))
       = Inl AttributeError
   \<and> fst (get_muscle_parameter 2 OPTIMAL_LENGTH
        (after_all
          [Op_get_muscle_parameter 2 OPTIMAL_LENGTH,
           Op_muscles_kinematics (Vector NdArray (Mat 2 [[1, 2]])) None None,
           Op_set_muscle_parameters 1 7,
           Op_forward_dynamics (Vector NdArray (Vec [1, 2])) (Vector NdArray (Vec [3, 4]))
             (Vector NdArray (Vec [0, 0])) TORQUE]
          (snd (set_muscle_parameters 2 42 example_model)))) = Inl AttributeError
   \<and> 2 < n_muscles example_casadi_model
   \<and> fst (get_muscle_parameter 2 OPTIMAL_LENGTH
        (snd (set_muscle_parameters 2 42 example_casadi_model))) = Inr 42"
  using set_then_get [of 2 example_model
        "[Op_get_muscle_parameter 2 OPTIMAL_LENGTH,
         Op_muscles_kinematics (Vector NdArray (Mat 2 [[1, 2]])) None None,
         Op_set_muscle_parameters 1 7,
         Op_forward_dynamics (Vector NdArray (Vec [1, 2])) (Vector NdArray (Vec [3, 4]))
           (Vector NdArray (Vec [0, 0])) TORQUE]" 42]
    set_then_get [of 2 example_model "[]" 42]
    set_then_get [of 2 example_casadi_model "[]" 42]
  by (simp add: example_casadi_model_def example_model_def example_engine_def n_muscles_def)

subsection \<open>Errors raised before any computation\<close>

text \<open>
  Claim C6. Whenever the velocities are not of the same concrete representation as
  the poses, \<open>muscles_kinematics\<close> raises the type-mismatch error; whenever the
  excitations, the poses and the velocities (if given) are not all of the same
  concrete representation, \<open>muscle_force_coefficients\<close> raises it, and so does
  \<open>muscle_force\<close>. In each case the model is returned as it was: no call into the
  engine has been made.
\<close>

theorem batch_type_mismatch:
  "(type_of v \<noteq> type_of q \<longrightarrow>
      muscles_kinematics q (Some v) muscle_index self = (Inl TypeMismatch, self))
   \<and> (type_of q \<noteq> type_of emg
        \<or> (\<exists>v. qdot = Some v \<and> (type_of v \<noteq> type_of emg \<or> type_of v \<noteq> type_of q)) \<longrightarrow>
      muscle_force_coefficients emg q qdot muscle_index self = (Inl TypeMismatch, self))
   \<and> (type_of q \<noteq> type_of emg \<or> type_of w \<noteq> type_of emg \<longrightarrow>
      muscle_force emg q w muscle_index self = (Inl TypeMismatch, self))"
  by (auto simp add: muscles_kinematics_def muscle_force_coefficients_def muscle_force_def
        raise_def Let_def)

theorem batch_type_mismatch_witness:
  "type_of (Vector MX (Mat 2 [[3, 4]])) \<noteq> type_of (Vector NdArray (Mat 2 [[1, 2]]))
   \<and> muscles_kinematics (Vector NdArray (Mat 2 [[1, 2]])) (Some (Vector MX (Mat 2 [[3, 4]])))
        None example_model = (Inl TypeMismatch, example_model)
   \<and> muscle_force_coefficients (Vector NdArray (Mat 5 [[1, 2, 3, 4, 5]]))
        (Vector NdArray (Mat 2 [[1, 2]])) (Some (Vector MX (Mat 2 [[3, 4]]))) None example_model
        = (Inl TypeMismatch, example_model)
   \<and> muscle_force (Vector NdArray (Mat 5 [[1, 2, 3, 4, 5]]))
        (Vector NdArray (Mat 2 [[1, 2]])) (Vector MX (Mat 2 [[3, 4]])) None example_model
        = (Inl TypeMismatch, example_model)"
  using batch_type_mismatch [where v = "Vector MX (Mat 2 [[3, 4]])"
      and q = "Vector NdArray (Mat 2 [[1, 2]])" and muscle_index = None
      and self = example_model and emg = "Vector NdArray (Mat 5 [[1, 2, 3, 4, 5]])"
      and qdot = "Some (Vector MX (Mat 2 [[3, 4]]))" and w = "Vector MX (Mat 2 [[3, 4]])"]
  by simp

text \<open>
  Claim C10. Whenever the initial state and the control vector are not of the same
  concrete representation, \<open>integrate\<close> raises the type-mismatch error and returns the
  model as it was, whatever the solver, the time samples, the kind of control and the
  integration method: neither the dynamics function nor the engine has been called.
\<close>

theorem integrate_type_mismatch:
  "type_of controls \<noteq> type_of states \<Longrightarrow>
   integrate solve_ivp t states controls controls_type integration_method self
     = (Inl TypeMismatch, self)"
  by (simp add: integrate_def raise_def Let_def)

theorem integrate_type_mismatch_witness:
  "type_of (Vector MX (Vec [0, 0])) \<noteq> type_of (Vector NdArray (Vec [1, 2, 3, 4]))
   \<and> integrate example_solver [0, 1] (Vector NdArray (Vec [1, 2, 3, 4])) (Vector MX (Vec [0, 0]))
        TORQUE RK45 example_model = (Inl TypeMismatch, example_model)"
  using integrate_type_mismatch [of "Vector MX (Vec [0, 0])" "Vector NdArray (Vec [1, 2, 3, 4])"
      example_solver "[0, 1]" TORQUE RK45 example_model]
  by simp

text \<open>
  Claim C4. For pose, velocity and control of one concrete representation (the check
  of the representation comes first in \<open>forward_dynamics\<close>): a control vector whose
  leading dimension is not the number of muscles, for an excitation, or not the number
  of degrees of freedom, for a torque, makes \<open>forward_dynamics\<close> raise the
  dimension-mismatch error, and a control kind that is neither of the two makes it
  raise the unsupported-control-type error. In each case the model is returned as it
  was: no call into the engine has been made and the kinematic state is not mutated.
\<close>

theorem forward_dynamics_rejects:
  assumes "type_of qdot = type_of q" and "type_of controls = type_of q"
  shows "(controls_type = EMG \<and> shape0 (data_of controls) \<noteq> n_muscles self \<longrightarrow>
            forward_dynamics q qdot controls controls_type self
              = (Inl (DimensionMismatch (n_muscles self) (shape0 (data_of controls))), self))
       \<and> (controls_type = TORQUE \<and> shape0 (data_of controls) \<noteq> n_q self \<longrightarrow>
            forward_dynamics q qdot controls controls_type self
              = (Inl (DimensionMismatch (n_q self) (shape0 (data_of controls))), self))
       \<and> (controls_type \<noteq> EMG \<and> controls_type \<noteq> TORQUE \<longrightarrow>
            forward_dynamics q qdot controls controls_type self
              = (Inl UnsupportedControlType, self))"
  using assms by (simp add: forward_dynamics_def prog_defs Let_def)

theorem forward_dynamics_rejects_witness:
  "shape0 (data_of (Vector NdArray (Vec [0, 0, 0 :: int]))) \<noteq> n_muscles example_model
   \<and> shape0 (data_of (Vector NdArray (Vec [0, 0, 0 :: int]))) \<noteq> n_q example_model
   \<and> forward_dynamics (Vector NdArray (Vec [1, 2])) (Vector NdArray (Vec [3, 4]))
        (Vector NdArray (Vec [0, 0, 0])) EMG example_model
        = (Inl (DimensionMismatch 5 3), example_model)
   \<and> forward_dynamics (Vector NdArray (Vec [1, 2])) (Vector NdArray (Vec [3, 4]))
        (Vector NdArray (Vec [0, 0, 0])) TORQUE example_model
        = (Inl (DimensionMismatch 2 3), example_model)
   \<and> forward_dynamics (Vector NdArray (Vec [1, 2])) (Vector NdArray (Vec [3, 4]))
        (Vector NdArray (Vec [0, 0])) OTHER_CONTROL example_model
        = (Inl UnsupportedControlType, example_model)"
  using
    forward_dynamics_rejects [of "Vector NdArray (Vec [3, 4])" "Vector NdArray (Vec [1, 2])"
      "Vector NdArray (Vec [0, 0, 0])" EMG example_model]
    forward_dynamics_rejects [of "Vector NdArray (Vec [3, 4])" "Vector NdArray (Vec [1, 2])"
      "Vector NdArray (Vec [0, 0, 0])" TORQUE example_model]
    forward_dynamics_rejects [of "Vector NdArray (Vec [3, 4])" "Vector NdArray (Vec [1, 2])"
      "Vector NdArray (Vec [0, 0])" OTHER_CONTROL example_model]
  by (simp add: n_muscles_def n_q_def example_model_def example_engine_def)

subsection \<open>Dynamics function\<close>

text \<open>
  Claim C2. For every pose and velocity and any two excitation arrays of one concrete
  representation whose leading dimension is the number of muscles, \<open>forward_dynamics\<close>
  with the muscle-excitation kind of control gives the same outcome: the same
  derivative or the same error, and the same model afterwards. The excitation values
  pass the interface and reach neither the joint torque nor the acceleration.
\<close>

theorem forward_dynamics_ignores_excitation:
  "shape0 e1 = n_muscles self \<Longrightarrow> shape0 e2 = n_muscles self \<Longrightarrow>
   forward_dynamics q qdot (Vector data_type e1) EMG self
     = forward_dynamics q qdot (Vector data_type e2) EMG self"
  by (simp add: forward_dynamics_def priv_forward_dynamics_muscles_def Let_def prog_defs)

theorem forward_dynamics_ignores_excitation_witness:
  "shape0 (Vec [1, 2, 3, 4, 5 :: int]) = n_muscles example_model
   \<and> shape0 (Vec [0, 0, 0, 0, 0 :: int]) = n_muscles example_model
   \<and> forward_dynamics (Vector NdArray (Vec [1, 2])) (Vector NdArray (Vec [3, 4]))
        (Vector NdArray (Vec [1, 2, 3, 4, 5])) EMG example_model
     = forward_dynamics (Vector NdArray (Vec [1, 2])) (Vector NdArray (Vec [3, 4]))
        (Vector NdArray (Vec [0, 0, 0, 0, 0])) EMG example_model
   \<and> fst (forward_dynamics (Vector NdArray (Vec [1, 2])) (Vector NdArray (Vec [3, 4]))
        (Vector NdArray (Vec [0, 0, 0, 0, 0])) EMG example_model)
     = Inr (Vec [3, 4], Vec [1, 2])"
  using forward_dynamics_ignores_excitation [of "Vec [1, 2, 3, 4, 5]" example_model
      "Vec [0, 0, 0, 0, 0]" "Vector NdArray (Vec [1, 2])" "Vector NdArray (Vec [3, 4])" NdArray]
  by (simp add: forward_dynamics_def priv_forward_dynamics_muscles_def priv_forward_dynamics_def
        stateSet_def muscularJointTorque_def ForwardDynamics_def Let_def prog_defs
        n_muscles_def n_q_def example_model_def example_engine_def)

subsection \<open>Batch muscle evaluator: shapes and runs that return\<close>

lemma bindE:
  assumes "bind m f s = (Inr r, s')"
  obtains x s1 where "m s = (Inr x, s1)" and "f x s1 = (Inr r, s')"
  using assms by (auto simp: bind_def split: prod.splits sum.splits)

lemma liftE:
  assumes "lift r s = (Inr x, s')"
  obtains "r = Inr x" and "s' = s"
  using assms by (simp add: lift_def)

lemma retE:
  assumes "ret y s = (Inr x, s')"
  obtains "x = y" and "s' = s"
  using assms by (auto simp: ret_def)

lemma get_selfE:
  assumes "get_self s = (Inr x, s')"
  obtains "x = s" and "s' = s"
  using assms by (auto simp: get_self_def)

lemma for_loop_invariant:
  assumes step: "\<And>i acc s acc' s'. P acc \<Longrightarrow> body i acc s = (Inr acc', s') \<Longrightarrow> P acc'"
    and "P acc" and "for_loop js body acc s = (Inr acc', s')"
  shows "P acc'"
  using assms(2,3)
proof (induction js arbitrary: acc s)
  case Nil
  then show ?case by (simp add: ret_def)
next
  case (Cons j js)
  from Cons.prems(2) obtain a1 s1 where b: "body j acc s = (Inr a1, s1)"
    and r: "for_loop js body a1 s1 = (Inr acc', s')"
    by (auto elim: bindE)
  from step [OF Cons.prems(1) b] have "P a1" .
  from Cons.IH [OF this r] show ?case .
qed

lemma storeE:
  assumes "store data_type out j i v s = (Inr y, s')"
  obtains "set_item out j i v = Inr y" and "s' = s"
  using assms by (auto simp: store_def split: if_splits)

lemma set_item_shape: "set_item x j i v = Inr y \<Longrightarrow> shape y = shape x"
  by (cases x) (auto split: if_splits)

lemma coefficients_muscle_shape:
  assumes "coefficients_muscle data_type emg qdot i j acc s = (Inr acc', s')"
  shows "shapes3 acc' = shapes3 acc"
proof -
  obtain a b c where acc: "acc = (a, b, c)" by (cases acc) auto
  show ?thesis
  proof (cases qdot)
    case None
    with assms acc show ?thesis
      unfolding coefficients_muscle_def Let_def shapes3_def
      by (auto elim!: bindE liftE retE storeE dest!: set_item_shape)
  next
    case (Some w)
    with assms acc show ?thesis
      unfolding coefficients_muscle_def Let_def shapes3_def
      by (auto elim!: bindE liftE retE storeE dest!: set_item_shape)
  qed
qed

lemma coefficients_sample_shape:
  assumes "coefficients_sample data_type emg q qdot muscle_index i acc s = (Inr acc', s')"
  shows "shapes3 acc' = shapes3 acc"
proof -
  from assms obtain s1 where
    "for_loop [fst muscle_index ..< snd muscle_index]
       (coefficients_muscle data_type emg qdot i) acc s1 = (Inr acc', s')"
    unfolding coefficients_sample_def by (auto elim!: bindE)
  then show ?thesis
    by (rule for_loop_invariant [where P = "\<lambda>x. shapes3 x = shapes3 acc", rotated 2])
       (simp_all add: coefficients_muscle_shape)
qed

lemma force_muscle_shape:
  assumes "force_muscle data_type emg muscle_index i j out s = (Inr out', s')"
  shows "shape out' = shape out"
  using assms unfolding force_muscle_def Let_def
  by (auto elim!: bindE liftE get_selfE dest!: set_item_shape)

lemma force_sample_shape:
  assumes "force_sample data_type emg q qdot muscle_index n i out s = (Inr out', s')"
  shows "shape out' = shape out"
proof -
  from assms obtain s1 where
    "for_loop [0 ..< n] (force_muscle data_type emg muscle_index i) out s1 = (Inr out', s')"
    unfolding force_sample_def by (auto elim!: bindE)
  then show ?thesis
    by (rule for_loop_invariant [where P = "\<lambda>x. shape x = shape out", rotated 2])
       (simp_all add: force_muscle_shape)
qed

lemma shape_new_array: "shape (new_array n K) = [n, K]"
  by (simp add: new_array_def)

lemma muscle_force_coefficients_shape:
  assumes run: "muscle_force_coefficients emg q qdot muscle_index self = (Inr (flpe, flce, fvce), self')"
    and K: "shape1 (promote (data_of q)) = Inr K"
    and nd: "type_of emg = NdArray"
  shows "shape (data_of flpe) = [selected muscle_index self, K]
       \<and> shape (data_of flce) = [selected muscle_index self, K]
       \<and> (case fvce of None \<Rightarrow> qdot = None
           | Some w \<Rightarrow> qdot \<noteq> None \<and> shape (data_of w) = [selected muscle_index self, K])"
proof -
  let ?n = "selected muscle_index self"
  from run have ty: "\<not> (type_of q \<noteq> type_of emg \<or> (case qdot of None \<Rightarrow> False | Some v \<Rightarrow> type_of v \<noteq> type_of emg))"
    by (auto simp: muscle_force_coefficients_def Let_def raise_def split: if_splits)
  from run ty K obtain body acc s2 where
    loop: "for_loop [0 ..< K] (coefficients_sample (type_of emg) (data_of emg) (promote (data_of q))
              (map_option (\<lambda>v. promote (data_of v)) qdot) (parse_muscle_index muscle_index (n_muscles self)))
              (new_array_of_tuple (type_of emg) (brbd self) ?n K,
               new_array_of_tuple (type_of emg) (brbd self) ?n K,
               new_array_of_tuple (type_of emg) (brbd self) ?n K) self = (Inr acc, s2)"
    and fin: "(flpe, flce, fvce) =
        (case acc of (out_flpe, out_flce, out_fvce) \<Rightarrow>
           if qdot = None
           then (Vector (type_of emg) out_flpe, Vector (type_of emg) out_flce, None)
           else (Vector (type_of emg) out_flpe, Vector (type_of emg) out_flce,
                       Some (Vector (type_of emg) out_fvce)))"
    unfolding muscle_force_coefficients_def Let_def selected_def
    by (auto elim!: bindE liftE get_selfE retE split: if_splits prod.splits)
  have "shapes3 acc = ([?n, K], [?n, K], [?n, K])"
    by (rule for_loop_invariant [OF _ _ loop, where P = "\<lambda>x. shapes3 x = ([?n, K], [?n, K], [?n, K])"])
       (simp_all add: coefficients_sample_shape,
        simp add: shapes3_def shape_new_array new_array_of_tuple_def nd)
  with fin show ?thesis
    by (auto simp: shapes3_def shape_new_array split: prod.splits if_splits)
qed

lemma muscle_force_shape:
  assumes run: "muscle_force emg q qdot muscle_index self = (Inr out, self')"
    and K: "shape1 (promote (data_of q)) = Inr K"
  shows "shape (data_of out) = [selected muscle_index self, K]"
proof -
  let ?n = "selected muscle_index self"
  from run have ty: "\<not> (type_of q \<noteq> type_of emg \<or> type_of qdot \<noteq> type_of emg)"
    by (auto simp: muscle_force_def Let_def raise_def split: if_splits)
  from run ty K obtain acc s2 where
    loop: "for_loop [0 ..< K] (force_sample (type_of emg) (promote (data_of emg)) (promote (data_of q))
              (promote (data_of qdot))
              (indices_list (parse_muscle_index muscle_index (n_muscles self)) ?n) ?n)
              (new_array ?n K) self = (Inr acc, s2)"
    and fin: "out = Vector (type_of emg) acc"
    unfolding muscle_force_def Let_def selected_def
    by (auto elim!: bindE liftE get_selfE retE split: if_splits prod.splits)
  have "shape acc = [?n, K]"
    by (rule for_loop_invariant [OF _ _ loop, where P = "\<lambda>x. shape x = [?n, K]"])
       (simp_all add: force_sample_shape shape_new_array)
  with fin show ?thesis
    by (simp add: shape_new_array)
qed



lemma succeedsD: "succeeds m s Q \<Longrightarrow> \<exists>x s'. m s = (Inr x, s') \<and> Q x s'"
  by (auto simp: succeeds_def split: prod.splits sum.splits)

lemma succeeds_mono: "succeeds m s P \<Longrightarrow> (\<And>x s'. P x s' \<Longrightarrow> Q x s') \<Longrightarrow> succeeds m s Q"
  by (auto simp: succeeds_def split: prod.splits sum.splits)

lemma succeeds_bind:
  "succeeds m s (\<lambda>x s1. succeeds (f x) s1 Q) \<Longrightarrow> succeeds (bind m f) s Q"
  by (auto simp: succeeds_def bind_def split: prod.splits sum.splits)

lemma succeeds_ret: "Q x s \<Longrightarrow> succeeds (ret x) s Q"
  by (simp add: succeeds_def ret_def)

lemma succeeds_get_self: "Q s s \<Longrightarrow> succeeds get_self s Q"
  by (simp add: succeeds_def get_self_def)

lemma for_loop_succeeds:
  assumes step: "\<And>i acc s. i \<in> set js \<Longrightarrow> I acc s \<Longrightarrow> succeeds (body i acc) s I"
    and "I acc s"
  shows "succeeds (for_loop js body acc) s I"
  using assms
proof (induction js arbitrary: acc s)
  case Nil
  then show ?case by (simp add: succeeds_ret)
next
  case (Cons j js)
  have "succeeds (body j acc) s I"
    by (rule Cons.prems(1)) (simp_all add: Cons.prems(2))
  then have "succeeds (body j acc) s (\<lambda>x s1. succeeds (for_loop js body x) s1 I)"
    by (rule succeeds_mono) (rule Cons.IH, simp_all add: Cons.prems(1))
  then show ?case
    by (simp add: succeeds_bind)
qed

lemma item_covers: "covers x n K \<Longrightarrow> j < n \<Longrightarrow> i < K \<Longrightarrow> \<exists>e. item x j i = Inr e"
proof (cases x)
  case (Vec xs)
  assume "covers x n K" with Vec show ?thesis by simp
next
  case (Mat r cols)
  assume c: "covers x n K" and j: "j < n" and i: "i < K"
  from c Mat i have "cols ! i \<in> set (take K cols)"
    by (metis covers.simps(2) length_take min.absorb2 nth_mem nth_take)
  with c Mat have "n \<le> length (cols ! i)"
    by (auto simp: list_all_iff)
  with c Mat j i show ?thesis by auto
qed

lemma set_item_succeeds:
  "shape x = [n, K] \<Longrightarrow> j < n \<Longrightarrow> i < K \<Longrightarrow> \<exists>y. set_item x j i v = Inr y \<and> shape y = [n, K]"
  by (cases x) auto

lemma store_succeeds:
  fixes s :: "'a ModelBiorbd"
  assumes "\<not> use_casadi s" and "shape x = [n, K]" and "j < n" and "i < K"
  shows "\<exists>y. store data_type x j i v s = (Inr y, s) \<and> shape y = [n, K]"
  using set_item_succeeds [OF assms(2-4), of v] assms(1) by (auto simp: store_def)

lemma column_succeeds: "shape1 x = Inr K' \<Longrightarrow> i < K' \<Longrightarrow> \<exists>c. column x i = Inr c"
  by (cases x) auto

lemma update_sample_succeeds:
  fixes s :: "'a ModelBiorbd"
  assumes "shape1 q = Inr K" and "i < K"
    and "\<And>v. qdot = Some v \<Longrightarrow> \<exists>K'. shape1 v = Inr K' \<and> K \<le> K'"
  shows "succeeds (update_sample q qdot i) s (\<lambda>_ s'. static s' = static s)"
proof -
  from assms(1,2) obtain c where c: "column q i = Inr c"
    by (auto dest: column_succeeds)
  show ?thesis
  proof (cases qdot)
    case None
    with c show ?thesis
      by (simp add: update_sample_def updateMuscles_def succeeds_def bind_def lift_def static_def)
  next
    case (Some v)
    with assms(2,3) obtain d where "column v i = Inr d"
      by (metis column_succeeds less_le_trans)
    with c Some show ?thesis
      by (simp add: update_sample_def updateMuscles_def succeeds_def bind_def lift_def static_def)
  qed
qed

lemma upcast_muscle_ok:
  fixes s :: "'a ModelBiorbd"
  shows "muscle_type_id (brbd s) j \<noteq> OTHER_MUSCLE_TYPE \<Longrightarrow> upcast_muscle j s = (Inr j, s)"
  by (cases "muscle_type_id (brbd s) j") (simp_all add: upcast_muscle_def)

lemma supportedD:
  fixes s :: "'a ModelBiorbd"
  shows "supported s n \<Longrightarrow> j < n \<Longrightarrow> muscle_type_id (brbd s) j \<noteq> OTHER_MUSCLE_TYPE"
  by (simp add: supported_def list_all_iff)

lemma hill_typeD:
  fixes s :: "'a ModelBiorbd"
  shows "hill_type s n \<Longrightarrow> j < n \<Longrightarrow>
    muscle_type_id (brbd s) j \<noteq> OTHER_MUSCLE_TYPE
    \<and> muscle_type_id (brbd s) j \<noteq> IDEALIZED_ACTUATOR"
proof -
  assume "hill_type s n" and "j < n"
  then have "muscle_type_id (brbd s) j \<in> {HILL, HILL_THELEN, HILL_DE_GROOTE}"
    by (simp add: hill_type_def list_all_iff)
  then show ?thesis by auto
qed

lemma static_simps:
  fixes s :: "'a ModelBiorbd"
  shows "static s' = static s \<Longrightarrow> brbd s' = brbd s \<and> use_casadi s' = use_casadi s"
  by (simp add: static_def)

subsubsection \<open>\<open>muscles_kinematics\<close>\<close>

lemma kinematics_muscle_succeeds:
  fixes s :: "'a ModelBiorbd"
  assumes j: "j < nbMuscleTotal (brbd s)" and nc: "\<not> use_casadi s"
    and q: "shape1 q = Inr K"
    and qd: "\<And>v. qdot = Some v \<Longrightarrow> \<exists>K'. shape1 v = Inr K' \<and> K \<le> K'"
    and sh: "shapes2 acc = ([n, K], [n, K])"
    and ji: "j < n" "i < K"
  shows "succeeds (kinematics_muscle data_type q qdot i j acc) s
           (\<lambda>acc' s'. shapes2 acc' = ([n, K], [n, K]) \<and> static s' = static s)"
proof -
  obtain a b where acc: "acc = (a, b)" by (cases acc) auto
  from q ji obtain qi where qi: "column q i = Inr qi"
    by (auto dest: column_succeeds)
  from sh acc have sa: "shape a = [n, K]" and sb: "shape b = [n, K]"
    by (simp_all add: shapes2_def)
  from set_item_succeeds [OF sa ji] set_item_succeeds [OF sb ji]
  have sets: "\<And>v. \<exists>y. set_item a j i v = Inr y \<and> shape y = [n, K]"
    "\<And>v. \<exists>y. set_item b j i v = Inr y \<and> shape y = [n, K]"
    by blast+
  obtain a' where a': "set_item a j i (eng_length (brbd s) (dyn s) j qi) = Inr a'"
    "shape a' = [n, K]"
    using sets(1) by blast
  show ?thesis
  proof (cases qdot)
    case None
    with j nc acc qi a' sb show ?thesis
      by (simp add: kinematics_muscle_def muscle_def muscle_length_def store_def
            succeeds_def prog_defs shapes2_def static_def)
  next
    case (Some w)
    with qd ji obtain wi where wi: "column w i = Inr wi"
      by (metis column_succeeds less_le_trans)
    obtain b' where b': "set_item b j i (eng_velocity (brbd s) (dyn s) j qi wi) = Inr b'"
      "shape b' = [n, K]"
      using sets(2) by blast
    from Some j nc acc qi wi a' b' show ?thesis
      by (simp add: kinematics_muscle_def muscle_def muscle_length_def muscle_velocity_def
            store_def succeeds_def prog_defs shapes2_def static_def)
  qed
qed

lemma kinematics_sample_succeeds:
  fixes s :: "'a ModelBiorbd"
  assumes q: "shape1 q = Inr K" "i < K"
    and qd: "\<And>v. qdot = Some v \<Longrightarrow> \<exists>K'. shape1 v = Inr K' \<and> K \<le> K'"
    and nc: "\<not> use_casadi s" and n: "nbMuscleTotal (brbd s) \<le> n"
    and sh: "shapes2 acc = ([n, K], [n, K])"
  shows "succeeds (kinematics_sample data_type q qdot i acc) s
           (\<lambda>acc' s'. shapes2 acc' = ([n, K], [n, K]) \<and> static s' = static s)"
  unfolding kinematics_sample_def
proof (rule succeeds_bind, rule succeeds_mono [OF update_sample_succeeds [OF q qd]])
  fix x :: unit and s1 :: "'a ModelBiorbd"
  assume b: "static s1 = static s"
  let ?I = "\<lambda>(acc' :: 'a option tensor \<times> 'a option tensor) (s' :: 'a ModelBiorbd).
              shapes2 acc' = ([n, K], [n, K]) \<and> static s' = static s"
  have "succeeds (for_loop [0 ..< nbMuscleTotal (brbd s1)]
                    (kinematics_muscle data_type q qdot i) acc) s1 ?I"
  proof (rule for_loop_succeeds [where I = ?I])
    show "?I acc s1" using sh b by simp
  next
    fix j and acc' :: "'a option tensor \<times> 'a option tensor" and s' :: "'a ModelBiorbd"
    assume j: "j \<in> set [0 ..< nbMuscleTotal (brbd s1)]" and I: "?I acc' s'"
    from j b have jn: "j < nbMuscleTotal (brbd s)"
      by (simp add: static_def)
    with I nc n have "j < nbMuscleTotal (brbd s')" "\<not> use_casadi s'" "j < n"
      by (simp_all add: static_def)
    then have "succeeds (kinematics_muscle data_type q qdot i j acc') s'
        (\<lambda>a t. shapes2 a = ([n, K], [n, K]) \<and> static t = static s')"
      using q qd I by (intro kinematics_muscle_succeeds) simp_all
    with I show "succeeds (kinematics_muscle data_type q qdot i j acc') s' ?I"
      by (auto elim: succeeds_mono)
  qed
  then show "succeeds (bind get_self (\<lambda>self.
                for_loop [0 ..< nbMuscleTotal (brbd self)]
                  (kinematics_muscle data_type q qdot i) acc)) s1 ?I"
    by (simp add: succeeds_def bind_def get_self_def)
qed simp_all

lemma muscles_kinematics_succeeds:
  fixes self :: "'a ModelBiorbd"
  assumes ty: "type_of q = NdArray" "\<And>v. qdot = Some v \<Longrightarrow> type_of v = NdArray"
    and nc: "\<not> use_casadi self"
    and q: "shape1 (data_of q) = Inr K"
    and qd: "\<And>v. qdot = Some v \<Longrightarrow> \<exists>K'. shape1 (data_of v) = Inr K' \<and> K \<le> K'"
  shows "\<exists>lengths velocities self'.
           muscles_kinematics q qdot None self = (Inr (lengths, velocities), self')
         \<and> shape (data_of lengths) = [n_muscles self, K]
         \<and> (case velocities of None \<Rightarrow> qdot = None
             | Some w \<Rightarrow> qdot \<noteq> None \<and> shape (data_of w) = [n_muscles self, K])"
proof -
  let ?n = "n_muscles self"
  let ?I = "\<lambda>(acc' :: 'a option tensor \<times> 'a option tensor) (s' :: 'a ModelBiorbd).
              shapes2 acc' = ([?n, K], [?n, K]) \<and> static s' = static self"
  let ?qd = "map_option data_of qdot"
  let ?loop = "for_loop [0 ..< K] (kinematics_sample NdArray (data_of q) ?qd)
                 (new_array ?n K, new_array ?n K)"
  have "succeeds ?loop self ?I"
  proof (rule for_loop_succeeds [where I = ?I])
    show "?I (new_array ?n K, new_array ?n K) self"
      by (simp add: shapes2_def shape_new_array)
  next
    fix i and acc :: "'a option tensor \<times> 'a option tensor" and s :: "'a ModelBiorbd"
    assume i: "i \<in> set [0 ..< K]" and I: "?I acc s"
    from i have iK: "i < K" by simp
    have qd': "\<And>v. ?qd = Some v \<Longrightarrow> \<exists>K'. shape1 v = Inr K' \<and> K \<le> K'"
      using qd by auto
    from nc I have r': "\<not> use_casadi s" "nbMuscleTotal (brbd s) \<le> ?n"
      by (simp_all add: n_muscles_def static_def)
    have "succeeds (kinematics_sample NdArray (data_of q) ?qd i acc) s
        (\<lambda>a t. shapes2 a = ([?n, K], [?n, K]) \<and> static t = static s)"
      using q iK qd' r' I by (intro kinematics_sample_succeeds) simp_all
    with I show "succeeds (kinematics_sample NdArray (data_of q) ?qd i acc) s ?I"
      by (auto elim: succeeds_mono)
  qed
  then obtain a b s' where loop: "?loop self = (Inr (a, b), s')"
    and sh: "shape a = [?n, K]" "shape b = [?n, K]"
    by (auto dest!: succeedsD simp: shapes2_def)
  have ty': "\<not> (case qdot of None \<Rightarrow> False | Some v \<Rightarrow> type_of v \<noteq> type_of q)"
    using ty by (cases qdot) simp_all
  have n: "snd (0 :: nat, ?n) - fst (0 :: nat, ?n) = ?n" by simp
  have run: "muscles_kinematics q qdot None self
      = (Inr (Vector NdArray a, if qdot = None then None else Some (Vector NdArray b)), s')"
    unfolding muscles_kinematics_def Let_def if_not_P [OF ty']
    by (simp add: bind_def get_self_def lift_def q loop ret_def parse_muscle_index_def
          new_array_of_tuple_def ty(1))
  show ?thesis
    unfolding run using sh by (cases qdot) simp_all
qed

subsubsection \<open>\<open>muscle_force_coefficients\<close>\<close>

lemma coefficients_muscle_succeeds:
  fixes s :: "'a ModelBiorbd"
  assumes j: "j < nbMuscleTotal (brbd s)" "muscle_type_id (brbd s) j \<noteq> OTHER_MUSCLE_TYPE"
       "muscle_type_id (brbd s) j \<noteq> IDEALIZED_ACTUATOR"
    and nc: "\<not> use_casadi s"
    and e: "covers emg n K" and sh: "shapes3 acc = ([n, K], [n, K], [n, K])"
    and ji: "j < n" "i < K"
  shows "succeeds (coefficients_muscle data_type emg qdot i j acc) s
           (\<lambda>acc' s'. shapes3 acc' = ([n, K], [n, K], [n, K]) \<and> static s' = static s)"
proof -
  obtain a b c where acc: "acc = (a, b, c)" by (cases acc) auto
  from e ji obtain ev where ev: "item emg j i = Inr ev"
    by (auto dest: item_covers)
  from sh acc have sa: "shape a = [n, K]" and sb: "shape b = [n, K]" and sc: "shape c = [n, K]"
    by (simp_all add: shapes3_def)
  from set_item_succeeds [OF sa ji] set_item_succeeds [OF sb ji] set_item_succeeds [OF sc ji]
  have sets: "\<And>v. \<exists>y. set_item a j i v = Inr y \<and> shape y = [n, K]"
    "\<And>v. \<exists>y. set_item b j i v = Inr y \<and> shape y = [n, K]"
    "\<And>v. \<exists>y. set_item c j i v = Inr y \<and> shape y = [n, K]"
    by blast+
  obtain a' where a': "set_item a j i (eng_FlPE (brbd s) (dyn s) j) = Inr a'" "shape a' = [n, K]"
    using sets(1) by blast
  obtain b' where b': "set_item b j i (eng_FlCE (brbd s) (dyn s) j (ev, ev)) = Inr b'" "shape b' = [n, K]"
    using sets(2) by blast
  obtain c' where c': "set_item c j i (eng_FvCE (brbd s) (dyn s) j) = Inr c'" "shape c' = [n, K]"
    using sets(3) by blast
  show ?thesis
  proof (cases qdot)
    case None
    with j nc acc ev a' b' sc show ?thesis
      by (simp add: coefficients_muscle_def muscle_def upcast_muscle_ok FlPE_def FlCE_def
            store_def succeeds_def prog_defs shapes3_def static_def)
  next
    case (Some w)
    with j nc acc ev a' b' c' show ?thesis
      by (simp add: coefficients_muscle_def muscle_def upcast_muscle_ok FlPE_def FlCE_def FvCE_def
            store_def succeeds_def prog_defs shapes3_def static_def)
  qed
qed

lemma coefficients_sample_succeeds:
  fixes s :: "'a ModelBiorbd"
  assumes q: "shape1 q = Inr K" "i < K"
    and qd: "\<And>v. qdot = Some v \<Longrightarrow> \<exists>K'. shape1 v = Inr K' \<and> K \<le> K'"
    and r: "muscle_index = (0, n)" "n \<le> nbMuscleTotal (brbd s)" "hill_type s n"
    and nc: "\<not> use_casadi s"
    and e: "covers emg n K" and sh: "shapes3 acc = ([n, K], [n, K], [n, K])"
  shows "succeeds (coefficients_sample data_type emg q qdot muscle_index i acc) s
           (\<lambda>acc' s'. shapes3 acc' = ([n, K], [n, K], [n, K]) \<and> static s' = static s)"
  unfolding coefficients_sample_def
proof (rule succeeds_bind, rule succeeds_mono [OF update_sample_succeeds [OF q qd]])
  fix x :: unit and s1 :: "'a ModelBiorbd"
  assume b: "static s1 = static s"
  let ?I = "\<lambda>(acc' :: 'a option tensor \<times> 'a option tensor \<times> 'a option tensor) (s' :: 'a ModelBiorbd).
              shapes3 acc' = ([n, K], [n, K], [n, K]) \<and> static s' = static s"
  show "succeeds (for_loop [fst muscle_index ..< snd muscle_index]
                    (coefficients_muscle data_type emg qdot i) acc) s1 ?I"
  proof (rule for_loop_succeeds [where I = ?I])
    show "?I acc s1" using sh b by simp
  next
    fix j and acc' :: "'a option tensor \<times> 'a option tensor \<times> 'a option tensor" and s' :: "'a ModelBiorbd"
    assume j: "j \<in> set [fst muscle_index ..< snd muscle_index]" and I: "?I acc' s'"
    from j r have jn: "j < n" by simp
    from I have st: "brbd s' = brbd s" "use_casadi s' = use_casadi s"
      by (simp_all add: static_def)
    from hill_typeD [OF r(3) jn] jn r(2) nc st
    have "j < nbMuscleTotal (brbd s')" "muscle_type_id (brbd s') j \<noteq> OTHER_MUSCLE_TYPE"
      "muscle_type_id (brbd s') j \<noteq> IDEALIZED_ACTUATOR" "\<not> use_casadi s'"
      by simp_all
    then have "succeeds (coefficients_muscle data_type emg qdot i j acc') s'
        (\<lambda>a t. shapes3 a = ([n, K], [n, K], [n, K]) \<and> static t = static s')"
      using e I jn q(2) by (intro coefficients_muscle_succeeds) simp_all
    with I show "succeeds (coefficients_muscle data_type emg qdot i j acc') s' ?I"
      by (auto elim: succeeds_mono)
  qed
qed simp_all

lemma muscle_force_coefficients_succeeds:
  fixes self :: "'a ModelBiorbd"
  assumes ty: "type_of emg = NdArray" "type_of q = NdArray"
       "\<And>v. qdot = Some v \<Longrightarrow> type_of v = NdArray"
    and nc: "\<not> use_casadi self"
    and r: "parse_muscle_index muscle_index (n_muscles self) = (0, n)" "n \<le> n_muscles self"
       "hill_type self n"
    and q: "shape1 (promote (data_of q)) = Inr K"
    and qd: "\<And>v. qdot = Some v \<Longrightarrow> \<exists>K'. shape1 (promote (data_of v)) = Inr K' \<and> K \<le> K'"
    and e: "covers (data_of emg) n K"
  shows "\<exists>r self'. muscle_force_coefficients emg q qdot muscle_index self = (Inr r, self')"
proof -
  let ?I = "\<lambda>(acc' :: 'a option tensor \<times> 'a option tensor \<times> 'a option tensor) (s' :: 'a ModelBiorbd).
              shapes3 acc' = ([n, K], [n, K], [n, K]) \<and> static s' = static self"
  let ?qd = "map_option (\<lambda>v. promote (data_of v)) qdot"
  let ?loop = "for_loop [0 ..< K]
     (coefficients_sample NdArray (data_of emg) (promote (data_of q)) ?qd (0, n))
           (new_array n K, new_array n K, new_array n K)"
  have "succeeds ?loop self ?I"
  proof (rule for_loop_succeeds [where I = ?I])
    show "?I (new_array n K, new_array n K, new_array n K) self"
      by (simp add: shapes3_def shape_new_array)
  next
    fix i and acc :: "'a option tensor \<times> 'a option tensor \<times> 'a option tensor" and s :: "'a ModelBiorbd"
    assume i: "i \<in> set [0 ..< K]" and I: "?I acc s"
    from i have iK: "i < K" by simp
    have qd': "\<And>v. ?qd = Some v \<Longrightarrow> \<exists>K'. shape1 v = Inr K' \<and> K \<le> K'"
      using qd by auto
    from r nc I have r': "n \<le> nbMuscleTotal (brbd s)" "hill_type s n" "\<not> use_casadi s"
      by (simp_all add: n_muscles_def hill_type_def static_def)
    have "succeeds (coefficients_sample NdArray (data_of emg) (promote (data_of q)) ?qd (0, n) i acc) s
        (\<lambda>a t. shapes3 a = ([n, K], [n, K], [n, K]) \<and> static t = static s)"
      using q iK qd' r' e I by (intro coefficients_sample_succeeds) simp_all
    with I show "succeeds (coefficients_sample NdArray (data_of emg) (promote (data_of q)) ?qd (0, n) i acc) s ?I"
      by (auto elim: succeeds_mono)
  qed
  then obtain a b c s' where loop: "?loop self = (Inr (a, b, c), s')"
    by (auto dest: succeedsD)
  have ty': "\<not> (type_of q \<noteq> type_of emg \<or> (case qdot of None \<Rightarrow> False | Some v \<Rightarrow> type_of v \<noteq> type_of emg))"
    using ty by (cases qdot) simp_all
  have n: "snd (0::nat, n) - fst (0::nat, n) = n" by simp
  show ?thesis
    unfolding muscle_force_coefficients_def Let_def if_not_P [OF ty'] r(1) n
    by (simp add: bind_def get_self_def lift_def q r(1) n loop ret_def new_array_of_tuple_def ty(1))
qed

subsubsection \<open>\<open>muscle_force\<close>\<close>

lemma force_muscle_succeeds:
  fixes s :: "'a ModelBiorbd"
  assumes j: "j < nbMuscleTotal (brbd s)" "muscle_type_id (brbd s) j \<noteq> OTHER_MUSCLE_TYPE"
    and e: "covers emg n K" and sh: "shape out = [n, K]"
    and ji: "j < n" "i < K"
  shows "succeeds (force_muscle data_type emg [0 ..< n] i j out) s
           (\<lambda>out' s'. shape out' = [n, K] \<and> static s' = static s)"
proof -
  from e ji obtain ev where ev: "item emg j i = Inr ev"
    by (auto dest: item_covers)
  from set_item_succeeds [OF sh ji]
  have sets: "\<And>v. \<exists>y. set_item out j i v = Inr y \<and> shape y = [n, K]"
    by blast
  obtain a where a: "set_item out j i (eng_force (brbd s) (dyn s) j (ev, ev)) = Inr a" "shape a = [n, K]"
    using sets by blast
  obtain b where b: "set_item out j i (casadi_eval (brbd s) (eng_force (brbd s) (dyn s) j (ev, ev))) = Inr b"
    "shape b = [n, K]"
    using sets by blast
  from j ji ev a b show ?thesis
    by (simp add: force_muscle_def list_item_def muscle_def upcast_muscle_ok force_def
          succeeds_def prog_defs Let_def static_def)
qed

lemma force_sample_succeeds:
  fixes s :: "'a ModelBiorbd"
  assumes q: "shape1 q = Inr K" "i < K"
    and qd: "shape1 qdot = Inr K'" "K \<le> K'"
    and r: "n \<le> nbMuscleTotal (brbd s)" "supported s n"
    and e: "covers emg n K" and sh: "shape out = [n, K]"
  shows "succeeds (force_sample data_type emg q qdot [0 ..< n] n i out) s
           (\<lambda>out' s'. shape out' = [n, K] \<and> static s' = static s)"
  unfolding force_sample_def
proof (rule succeeds_bind, rule succeeds_mono [OF update_sample_succeeds [OF q]])
  fix x :: unit and s1 :: "'a ModelBiorbd"
  assume b: "static s1 = static s"
  let ?I = "\<lambda>(out' :: 'a option tensor) (s' :: 'a ModelBiorbd).
              shape out' = [n, K] \<and> static s' = static s"
  show "succeeds (for_loop [0 ..< n] (force_muscle data_type emg [0 ..< n] i) out) s1 ?I"
  proof (rule for_loop_succeeds [where I = ?I])
    show "?I out s1" using sh b by simp
  next
    fix j and out' :: "'a option tensor" and s' :: "'a ModelBiorbd"
    assume j: "j \<in> set [0 ..< n]" and I: "?I out' s'"
    from j have jn: "j < n" by simp
    from I have st: "brbd s' = brbd s"
      by (simp add: static_def)
    from supportedD [OF r(2) jn] jn r(1) st
    have "j < nbMuscleTotal (brbd s')" "muscle_type_id (brbd s') j \<noteq> OTHER_MUSCLE_TYPE"
      by simp_all
    then have "succeeds (force_muscle data_type emg [0 ..< n] i j out') s'
        (\<lambda>a t. shape a = [n, K] \<and> static t = static s')"
      using e I jn q(2) by (intro force_muscle_succeeds) simp_all
    with I show "succeeds (force_muscle data_type emg [0 ..< n] i j out') s' ?I"
      by (auto elim: succeeds_mono)
  qed
next
  fix v assume "Some qdot = Some v"
  with qd show "\<exists>K'. shape1 v = Inr K' \<and> K \<le> K'" by auto
qed

lemma muscle_force_succeeds:
  fixes self :: "'a ModelBiorbd"
  assumes ty: "type_of q = type_of emg" "type_of qdot = type_of emg"
    and r: "parse_muscle_index muscle_index (n_muscles self) = (0, n)" "n \<le> n_muscles self"
       "supported self n"
    and q: "shape1 (promote (data_of q)) = Inr K"
    and qd: "shape1 (promote (data_of qdot)) = Inr K'" "K \<le> K'"
    and e: "covers (promote (data_of emg)) n K"
  shows "\<exists>r self'. muscle_force emg q qdot muscle_index self = (Inr r, self')"
proof -
  let ?I = "\<lambda>(out' :: 'a option tensor) (s' :: 'a ModelBiorbd).
              shape out' = [n, K] \<and> static s' = static self"
  let ?loop = "for_loop [0 ..< K]
           (force_sample (type_of emg) (promote (data_of emg)) (promote (data_of q))
              (promote (data_of qdot)) [0 ..< n] n) (new_array n K)"
  have "succeeds ?loop self ?I"
  proof (rule for_loop_succeeds [where I = ?I])
    show "?I (new_array n K) self"
      by (simp add: shape_new_array)
  next
    fix i and out :: "'a option tensor" and s :: "'a ModelBiorbd"
    assume i: "i \<in> set [0 ..< K]" and I: "?I out s"
    from i have iK: "i < K" by simp
    from r I have r': "n \<le> nbMuscleTotal (brbd s)" "supported s n"
      by (simp_all add: n_muscles_def supported_def static_def)
    have "succeeds (force_sample (type_of emg) (promote (data_of emg)) (promote (data_of q))
              (promote (data_of qdot)) [0 ..< n] n i out) s
        (\<lambda>a t. shape a = [n, K] \<and> static t = static s)"
      using q iK qd r' e I by (intro force_sample_succeeds) simp_all
    with I show "succeeds (force_sample (type_of emg) (promote (data_of emg)) (promote (data_of q))
              (promote (data_of qdot)) [0 ..< n] n i out) s ?I"
      by (auto elim: succeeds_mono)
  qed
  then obtain out s' where loop: "?loop self = (Inr out, s')"
    by (auto dest: succeedsD)
  have ty': "\<not> (type_of q \<noteq> type_of emg \<or> type_of qdot \<noteq> type_of emg)"
    using ty by simp
  have n: "snd (0::nat, n) - fst (0::nat, n) = n" "indices_list (0, n) n = [0 ..< n]"
    by (simp_all add: indices_list_def)
  show ?thesis
    unfolding muscle_force_def Let_def if_not_P [OF ty'] r(1) n
    by (simp add: bind_def get_self_def lift_def q r(1) n loop ret_def)
qed

lemma promote_idem: "promote (promote x) = promote x"
  by (cases x) (simp_all add: promote_def)

lemma muscle_force_coefficients_promoted:
  "muscle_force_coefficients emg q qdot muscle_index self
     = muscle_force_coefficients emg (promoted q) (map_option promoted qdot) muscle_index self"
  by (cases qdot)
     (simp_all add: muscle_force_coefficients_def promoted_def promote_idem Let_def
        option.map_comp comp_def)

lemma muscle_force_promoted:
  "muscle_force emg q qdot muscle_index self
     = muscle_force (promoted emg) (promoted q) (promoted qdot) muscle_index self"
  by (simp add: muscle_force_def promoted_def promote_idem Let_def)

lemma has_columnsD: "has_columns x K \<Longrightarrow> \<exists>K'. shape1 x = Inr K' \<and> K \<le> K'"
  by (auto simp: has_columns_def split: sum.splits)

text \<open>
  Claim C9. For every one-dimensional pose vector, which only a plain numeric array
  can be, \<open>muscle_force_coefficients\<close> and \<open>muscle_force\<close> treat the input as a batch
  of one sample: the call is the call on the one-column matrix of the pose, with a
  one-dimensional velocity promoted likewise, and for \<open>muscle_force\<close> a one-dimensional
  excitation too (\<open>muscle_force_coefficients\<close> does not promote the excitations); every
  array of a call that returns has exactly one column and as many rows as muscles are
  selected. The calls do return: \<open>muscle_force_coefficients\<close> on the numeric engine,
  when the arrays are plain numeric arrays, the selection is a range \<open>0 .. n\<close> of
  muscles of the model, all of a Hill type, the excitations are two-dimensional and
  hold the entries of these muscles for the sample, and the velocities have a column;
  \<open>muscle_force\<close> when the arrays are plain numeric arrays, the selection is such a
  range of muscles of types the adapter knows, the promoted excitations hold their
  entries and the velocities have a column.
  \<open>muscles_kinematics\<close> makes no promotion: on a one-dimensional pose it stops with
  an IndexError at \<open>q.shape[1]\<close>, before any call into the engine and with the model
  as it was. It takes a two-dimensional pose: on the numeric engine, for a plain
  numeric matrix of poses, all muscles selected and the velocities absent or a plain
  numeric matrix of at least as many columns, it returns arrays of one row per
  muscle and one column per pose, the velocities exactly when velocities were given.
\<close>

theorem one_dimensional_input:
  fixes self :: "'a ModelBiorbd" and q :: "'a list"
  shows
  "muscle_force_coefficients emg (Vector NdArray (Vec q)) qdot muscle_index self
     = muscle_force_coefficients emg (Vector NdArray (Mat (length q) [q]))
         (map_option promoted qdot) muscle_index self
   \<and> muscle_force emg' (Vector NdArray (Vec q)) qdot' muscle_index self
     = muscle_force (promoted emg') (Vector NdArray (Mat (length q) [q])) (promoted qdot')
         muscle_index self
   \<and> (\<forall>flpe flce fvce self'.
        muscle_force_coefficients emg (Vector NdArray (Vec q)) qdot muscle_index self
          = (Inr (flpe, flce, fvce), self') \<longrightarrow>
        shape (data_of flpe) = [selected muscle_index self, 1]
        \<and> shape (data_of flce) = [selected muscle_index self, 1]
        \<and> (\<forall>w. fvce = Some w \<longrightarrow> shape (data_of w) = [selected muscle_index self, 1]))
   \<and> (\<forall>out self'.
        muscle_force emg' (Vector NdArray (Vec q)) qdot' muscle_index self = (Inr out, self') \<longrightarrow>
        shape (data_of out) = [selected muscle_index self, 1])
   \<and> (type_of emg = NdArray \<and> \<not> use_casadi self
        \<and> (\<forall>v. qdot = Some v \<longrightarrow> type_of v = NdArray \<and> has_columns (promote (data_of v)) 1)
        \<and> parse_muscle_index muscle_index (n_muscles self) = (0, n) \<and> n \<le> n_muscles self
        \<and> hill_type self n \<and> covers (data_of emg) n 1 \<longrightarrow>
        (\<exists>r self'. muscle_force_coefficients emg (Vector NdArray (Vec q)) qdot muscle_index self
           = (Inr r, self')))
   \<and> (type_of emg' = NdArray \<and> type_of qdot' = NdArray
        \<and> has_columns (promote (data_of qdot')) 1
        \<and> parse_muscle_index muscle_index (n_muscles self) = (0, n) \<and> n \<le> n_muscles self
        \<and> supported self n \<and> covers (promote (data_of emg')) n 1 \<longrightarrow>
        (\<exists>r self'. muscle_force emg' (Vector NdArray (Vec q)) qdot' muscle_index self
           = (Inr r, self')))
   \<and> ((\<forall>v. qdot = Some v \<longrightarrow> type_of v = NdArray) \<longrightarrow>
        muscles_kinematics (Vector NdArray (Vec q)) qdot muscle_index self
          = (Inl IndexError, self))
   \<and> (\<not> use_casadi self
        \<and> (\<forall>v. qdot = Some v \<longrightarrow> type_of v = NdArray \<and> has_columns (data_of v) (length poses)) \<longrightarrow>
        (\<exists>lengths velocities self'.
           muscles_kinematics (Vector NdArray (Mat rows poses)) qdot None self
             = (Inr (lengths, velocities), self')
           \<and> shape (data_of lengths) = [n_muscles self, length poses]
           \<and> (case velocities of None \<Rightarrow> qdot = None
               | Some w \<Rightarrow> qdot \<noteq> None
                   \<and> shape (data_of w) = [n_muscles self, length poses])))"
proof (intro conjI allI impI)
  show "muscle_force_coefficients emg (Vector NdArray (Vec q)) qdot muscle_index self
     = muscle_force_coefficients emg (Vector NdArray (Mat (length q) [q]))
         (map_option promoted qdot) muscle_index self"
    using muscle_force_coefficients_promoted [of emg "Vector NdArray (Vec q)" qdot muscle_index self]
    by (simp add: promoted_def promote_def)
next
  show "muscle_force emg' (Vector NdArray (Vec q)) qdot' muscle_index self
     = muscle_force (promoted emg') (Vector NdArray (Mat (length q) [q])) (promoted qdot')
         muscle_index self"
    using muscle_force_promoted [of emg' "Vector NdArray (Vec q)" qdot' muscle_index self]
    by (simp add: promoted_def promote_def)
next
  fix flpe flce fvce self'
  assume run: "muscle_force_coefficients emg (Vector NdArray (Vec q)) qdot muscle_index self
          = (Inr (flpe, flce, fvce), self')"
  have K: "shape1 (promote (data_of (Vector NdArray (Vec q)))) = Inr 1"
    by (simp add: promote_def)
  from run have nd: "type_of emg = NdArray"
    by (auto simp: muscle_force_coefficients_def Let_def raise_def split: if_splits)
  note sh = muscle_force_coefficients_shape [OF run K nd]
  from sh show "shape (data_of flpe) = [selected muscle_index self, 1]" by simp
  from sh show "shape (data_of flce) = [selected muscle_index self, 1]" by simp
  fix w assume "fvce = Some w"
  with sh show "shape (data_of w) = [selected muscle_index self, 1]" by simp
next
  fix out self'
  assume run: "muscle_force emg' (Vector NdArray (Vec q)) qdot' muscle_index self = (Inr out, self')"
  have K: "shape1 (promote (data_of (Vector NdArray (Vec q)))) = Inr 1"
    by (simp add: promote_def)
  from muscle_force_shape [OF run K]
  show "shape (data_of out) = [selected muscle_index self, 1]" .
next
  assume wf: "type_of emg = NdArray \<and> \<not> use_casadi self
        \<and> (\<forall>v. qdot = Some v \<longrightarrow> type_of v = NdArray \<and> has_columns (promote (data_of v)) 1)
        \<and> parse_muscle_index muscle_index (n_muscles self) = (0, n) \<and> n \<le> n_muscles self
        \<and> hill_type self n \<and> covers (data_of emg) n 1"
  show "\<exists>r self'. muscle_force_coefficients emg (Vector NdArray (Vec q)) qdot muscle_index self
           = (Inr r, self')"
  proof (rule muscle_force_coefficients_succeeds [where n = n and K = 1])
    fix v assume "qdot = Some v"
    with wf show "type_of v = NdArray"
      and "\<exists>K'. shape1 (promote (data_of v)) = Inr K' \<and> 1 \<le> K'"
      by (auto dest: has_columnsD)
  qed (use wf in \<open>simp_all add: promote_def\<close>)
next
  assume wf: "type_of emg' = NdArray \<and> type_of qdot' = NdArray
        \<and> has_columns (promote (data_of qdot')) 1
        \<and> parse_muscle_index muscle_index (n_muscles self) = (0, n) \<and> n \<le> n_muscles self
        \<and> supported self n \<and> covers (promote (data_of emg')) n 1"
  then obtain K' where K': "shape1 (promote (data_of qdot')) = Inr K'" "1 \<le> K'"
    by (auto dest: has_columnsD)
  show "\<exists>r self'. muscle_force emg' (Vector NdArray (Vec q)) qdot' muscle_index self = (Inr r, self')"
    by (rule muscle_force_succeeds [where n = n and K = 1 and K' = K'])
       (use wf K' in \<open>simp_all add: promote_def\<close>)
next
  assume "\<forall>v. qdot = Some v \<longrightarrow> type_of v = NdArray"
  then show "muscles_kinematics (Vector NdArray (Vec q)) qdot muscle_index self
      = (Inl IndexError, self)"
    by (cases qdot) (simp_all add: muscles_kinematics_def Let_def prog_defs split: prod.splits)
next
  assume wf: "\<not> use_casadi self
        \<and> (\<forall>v. qdot = Some v \<longrightarrow> type_of v = NdArray \<and> has_columns (data_of v) (length poses))"
  show "\<exists>lengths velocities self'.
           muscles_kinematics (Vector NdArray (Mat rows poses)) qdot None self
             = (Inr (lengths, velocities), self')
           \<and> shape (data_of lengths) = [n_muscles self, length poses]
           \<and> (case velocities of None \<Rightarrow> qdot = None
               | Some w \<Rightarrow> qdot \<noteq> None
                   \<and> shape (data_of w) = [n_muscles self, length poses])"
  proof (rule muscles_kinematics_succeeds)
    fix v assume "qdot = Some v"
    with wf show "type_of v = NdArray"
      and "\<exists>K'. shape1 (data_of v) = Inr K' \<and> length poses \<le> K'"
      by (auto dest: has_columnsD)
  qed (use wf in simp_all)
qed

theorem one_dimensional_input_witness:
  "type_of (Vector NdArray (Mat 5 [[1, 2, 3, 4, 5 :: int]])) = NdArray
   \<and> \<not> use_casadi example_model
   \<and> has_columns (promote (Vec [3, 4 :: int])) 1
   \<and> has_columns (Mat 2 [[3, 4 :: int], [5, 6]]) (length [[1, 2 :: int], [0, 1]])
   \<and> parse_muscle_index None (n_muscles example_model) = (0, 5)
   \<and> 5 \<le> n_muscles example_model
   \<and> hill_type example_model 5
   \<and> supported example_model 5
   \<and> covers (Mat 5 [[1, 2, 3, 4, 5 :: int]]) 5 1
   \<and> covers (promote (Vec [1, 2, 3, 4, 5 :: int])) 5 1
   \<and> (\<exists>r self'. muscle_force_coefficients (Vector NdArray (Mat 5 [[1, 2, 3, 4, 5]]))
          (Vector NdArray (Vec [1, 2])) (Some (Vector NdArray (Vec [3, 4]))) None example_model
          = (Inr r, self'))
   \<and> (\<exists>r self'. muscle_force (Vector NdArray (Vec [1, 2, 3, 4, 5]))
          (Vector NdArray (Vec [1, 2])) (Vector NdArray (Vec [3, 4])) None example_model
          = (Inr r, self'))
   \<and> fst (muscle_force_coefficients (Vector NdArray (Mat 5 [[1, 2, 3, 4, 5]]))
          (Vector NdArray (Vec [1, 2])) (Some (Vector NdArray (Vec [3, 4]))) None example_model)
       = Inr (Vector NdArray (Mat 5 [[Some 10, Some 11, Some 12, Some 13, Some 14]]),
              Vector NdArray (Mat 5 [[Some 1, Some 3, Some 5, Some 7, Some 9]]),
              Some (Vector NdArray (Mat 5 [[Some 7, Some 7, Some 7, Some 7, Some 7]])))
   \<and> fst (muscle_force (Vector NdArray (Vec [1, 2, 3, 4, 5]))
          (Vector NdArray (Vec [1, 2])) (Vector NdArray (Vec [3, 4])) None example_model)
       = Inr (Vector NdArray (Mat 5 [[Some 10, Some 22, Some 36, Some 52, Some 70]]))
   \<and> muscles_kinematics (Vector NdArray (Vec [1, 2])) (Some (Vector NdArray (Vec [3, 4]))) None
        example_model = (Inl IndexError, example_model)
   \<and> (\<exists>lengths velocities self'.
        muscles_kinematics (Vector NdArray (Mat 2 [[1, 2], [0, 1]]))
          (Some (Vector NdArray (Mat 2 [[3, 4], [5, 6]]))) None example_model
          = (Inr (lengths, velocities), self')
        \<and> shape (data_of lengths) = [n_muscles example_model, length [[1, 2 :: int], [0, 1]]]
        \<and> (case velocities of None \<Rightarrow> False
            | Some w \<Rightarrow> shape (data_of w)
                = [n_muscles example_model, length [[1, 2 :: int], [0, 1]]]))
   \<and> fst (muscles_kinematics (Vector NdArray (Mat 2 [[1, 2], [0, 1]]))
          (Some (Vector NdArray (Mat 2 [[3, 4], [5, 6]]))) None example_model)
       = Inr (Vector NdArray (Mat 5 [[Some 3, Some 4, Some 5, Some 6, Some 7],
                                     [Some 1, Some 2, Some 3, Some 4, Some 5]]),
              Some (Vector NdArray (Mat 5 [[Some 0, Some 7, Some 14, Some 21, Some 28],
                                           [Some 0, Some 11, Some 22, Some 33, Some 44]])))"
proof -
  note t = one_dimensional_input [where emg = "Vector NdArray (Mat 5 [[1, 2, 3, 4, 5]])"
      and q = "[1, 2]" and qdot = "Some (Vector NdArray (Vec [3, 4]))"
      and muscle_index = None and self = example_model
      and emg' = "Vector NdArray (Vec [1, 2, 3, 4, 5])" and qdot' = "Vector NdArray (Vec [3, 4])"
      and n = 5]
  note u = one_dimensional_input [where qdot = "Some (Vector NdArray (Mat 2 [[3, 4], [5, 6]]))"
      and self = example_model and rows = 2 and poses = "[[1, 2], [0, 1]]"]
  have hyps:
    "type_of (Vector NdArray (Mat 5 [[1, 2, 3, 4, 5 :: int]])) = NdArray"
    "\<not> use_casadi example_model"
    "has_columns (promote (Vec [3, 4 :: int])) 1"
    "has_columns (Mat 2 [[3, 4 :: int], [5, 6]]) (length [[1, 2 :: int], [0, 1]])"
    "parse_muscle_index None (n_muscles example_model) = (0, 5)"
    "5 \<le> n_muscles example_model"
    "hill_type example_model 5"
    "supported example_model 5"
    "covers (Mat 5 [[1, 2, 3, 4, 5 :: int]]) 5 1"
    "covers (promote (Vec [1, 2, 3, 4, 5 :: int])) 5 1"
    by (simp_all add: has_columns_def promote_def parse_muscle_index_def n_muscles_def
          supported_def hill_type_def list_all_iff example_model_def example_engine_def)
  from t [THEN conjunct2, THEN conjunct2, THEN conjunct2, THEN conjunct2, THEN conjunct1] hyps
  have ex1: "\<exists>r self'. muscle_force_coefficients (Vector NdArray (Mat 5 [[1, 2, 3, 4, 5]]))
          (Vector NdArray (Vec [1, 2])) (Some (Vector NdArray (Vec [3, 4]))) None example_model
          = (Inr r, self')"
    by simp
  from t [THEN conjunct2, THEN conjunct2, THEN conjunct2, THEN conjunct2, THEN conjunct2,
          THEN conjunct1] hyps
  have ex2: "\<exists>r self'. muscle_force (Vector NdArray (Vec [1, 2, 3, 4, 5]))
          (Vector NdArray (Vec [1, 2])) (Vector NdArray (Vec [3, 4])) None example_model
          = (Inr r, self')"
    by simp
  from t [THEN conjunct2, THEN conjunct2, THEN conjunct2, THEN conjunct2, THEN conjunct2,
          THEN conjunct2, THEN conjunct1]
  have mk: "muscles_kinematics (Vector NdArray (Vec [1, 2])) (Some (Vector NdArray (Vec [3, 4])))
        None example_model = (Inl IndexError, example_model)"
    by simp
  from u [THEN conjunct2, THEN conjunct2, THEN conjunct2, THEN conjunct2, THEN conjunct2,
          THEN conjunct2, THEN conjunct2] hyps
  have mk2: "\<exists>lengths velocities self'.
        muscles_kinematics (Vector NdArray (Mat 2 [[1, 2], [0, 1]]))
          (Some (Vector NdArray (Mat 2 [[3, 4], [5, 6]]))) None example_model
          = (Inr (lengths, velocities), self')
        \<and> shape (data_of lengths) = [n_muscles example_model, length [[1, 2 :: int], [0, 1]]]
        \<and> (case velocities of None \<Rightarrow> False
            | Some w \<Rightarrow> shape (data_of w)
                = [n_muscles example_model, length [[1, 2 :: int], [0, 1]]])"
    by (auto split: option.splits)
  have v1: "fst (muscle_force_coefficients (Vector NdArray (Mat 5 [[1, 2, 3, 4, 5]]))
          (Vector NdArray (Vec [1, 2])) (Some (Vector NdArray (Vec [3, 4]))) None example_model)
       = Inr (Vector NdArray (Mat 5 [[Some 10, Some 11, Some 12, Some 13, Some 14]]),
              Vector NdArray (Mat 5 [[Some 1, Some 3, Some 5, Some 7, Some 9]]),
              Some (Vector NdArray (Mat 5 [[Some 7, Some 7, Some 7, Some 7, Some 7]])))"
    by (simp add: eval_defs prog_defs example_model_def example_engine_def upt_rec
          eval_nat_numeral Let_def)
  have v2: "fst (muscle_force (Vector NdArray (Vec [1, 2, 3, 4, 5]))
          (Vector NdArray (Vec [1, 2])) (Vector NdArray (Vec [3, 4])) None example_model)
       = Inr (Vector NdArray (Mat 5 [[Some 10, Some 22, Some 36, Some 52, Some 70]]))"
    by (simp add: eval_defs prog_defs example_model_def example_engine_def upt_rec
          eval_nat_numeral Let_def)
  have v3: "fst (muscles_kinematics (Vector NdArray (Mat 2 [[1, 2], [0, 1]]))
          (Some (Vector NdArray (Mat 2 [[3, 4], [5, 6]]))) None example_model)
       = Inr (Vector NdArray (Mat 5 [[Some 3, Some 4, Some 5, Some 6, Some 7],
                                     [Some 1, Some 2, Some 3, Some 4, Some 5]]),
              Some (Vector NdArray (Mat 5 [[Some 0, Some 7, Some 14, Some 21, Some 28],
                                           [Some 0, Some 11, Some 22, Some 33, Some 44]])))"
    by (simp add: eval_defs prog_defs example_model_def example_engine_def upt_rec
          eval_nat_numeral Let_def)
  from hyps ex1 ex2 v1 v2 mk mk2 v3 show ?thesis
    by (intro conjI)
qed

subsection \<open>Selecting a sub-range of the muscles\<close>

text \<open>
  Claim C1, at the sub-range of the muscles 1 and 2 of the five muscles of the small
  model and a batch of one pose: instead of arrays of two rows, each of
  \<open>muscles_kinematics\<close>, \<open>muscle_force_coefficients\<close> and \<open>muscle_force\<close> stops with
  an IndexError. The first runs over all five muscles and writes row \<open>j\<close> of an array
  of two rows; the second writes row \<open>j\<close> for the muscle \<open>j\<close> of the range, which
  starts at 1; the third reads the entry 1 of the list of the one index that
  \<open>indices\<close> leaves of the range.
\<close>

theorem subrange_raises:
  "fst (muscles_kinematics (Vector NdArray (Mat 2 [[1, 2]])) None (Some (1, 3)) example_model)
     = Inl IndexError
   \<and> fst (muscle_force_coefficients (Vector NdArray (Mat 5 [[1, 2, 3, 4, 5]]))
            (Vector NdArray (Mat 2 [[1, 2]])) None (Some (1, 3)) example_model)
     = Inl IndexError
   \<and> fst (muscle_force (Vector NdArray (Mat 5 [[1, 2, 3, 4, 5]]))
            (Vector NdArray (Mat 2 [[1, 2]])) (Vector NdArray (Mat 2 [[3, 4]])) (Some (1, 3))
            example_model)
     = Inl IndexError"
  by (simp add: eval_defs prog_defs example_model_def example_engine_def upt_rec Let_def)

text \<open>
  At this input the arrays are of one representation, so that no check of the
  representation stands before the loops, and the muscles 1 and 2 are muscles of the
  model.
\<close>

theorem subrange_raises_witness:
  "type_of (Vector NdArray (Mat 2 [[1, 2 :: int]])) = type_of (Vector NdArray (Mat 5 [[1, 2, 3, 4, 5 :: int]]))
   \<and> 3 \<le> n_muscles example_model
   \<and> fst (muscles_kinematics (Vector NdArray (Mat 2 [[1, 2]])) None (Some (1, 3)) example_model)
     = Inl IndexError
   \<and> fst (muscle_force_coefficients (Vector NdArray (Mat 5 [[1, 2, 3, 4, 5]]))
            (Vector NdArray (Mat 2 [[1, 2]])) None (Some (1, 3)) example_model)
     = Inl IndexError
   \<and> fst (muscle_force (Vector NdArray (Mat 5 [[1, 2, 3, 4, 5]]))
            (Vector NdArray (Mat 2 [[1, 2]])) (Vector NdArray (Mat 2 [[3, 4]])) (Some (1, 3))
            example_model)
     = Inl IndexError"
  using subrange_raises by (simp add: n_muscles_def example_model_def example_engine_def)

subsection \<open>Trajectory integrator\<close>

text \<open>
  \<open>integrate\<close> makes the same checks of the control as \<open>forward_dynamics\<close>, after its
  check of the representation and before it calls the solver.
\<close>

lemma integrate_rejects:
  assumes "type_of controls = type_of states"
  shows "(controls_type = EMG \<and> shape0 (data_of controls) \<noteq> n_muscles self \<longrightarrow>
            integrate solve_ivp t states controls controls_type integration_method self
              = (Inl (DimensionMismatch (n_muscles self) (shape0 (data_of controls))), self))
       \<and> (controls_type = TORQUE \<and> shape0 (data_of controls) \<noteq> n_q self \<longrightarrow>
            integrate solve_ivp t states controls controls_type integration_method self
              = (Inl (DimensionMismatch (n_q self) (shape0 (data_of controls))), self))
       \<and> (controls_type \<noteq> EMG \<and> controls_type \<noteq> TORQUE \<longrightarrow>
            integrate solve_ivp t states controls controls_type integration_method self
              = (Inl UnsupportedControlType, self))"
  using assms by (simp add: integrate_def prog_defs Let_def)

text \<open>
  Once the checks have passed, \<open>integrate\<close> hands the solver the dynamics function of
  the kind of control, the span from the first to the last time sample, the initial
  state, the name of the method and the time samples, and splits the array that the
  solver gives back, column by column, into the first \<open>n_q\<close> rows and the rest. How
  many columns that array has, and what they hold, is the solver's doing.
\<close>

lemma integrate_splits:
  assumes "type_of controls = type_of states"
    and "controls_type = EMG \<and> shape0 (data_of controls) = n_muscles self
         \<or> controls_type = TORQUE \<and> shape0 (data_of controls) = n_q self"
    and "integration_method = RK45 \<or> integration_method = RK4"
    and "t \<noteq> []"
    and "solve_ivp
           (if controls_type = EMG
            then (\<lambda>t x. priv_forward_dynamics_muscles x (data_of controls))
            else (\<lambda>t x. priv_forward_dynamics x (data_of controls)))
           (hd t, last t) (data_of states)
           (if integration_method = RK45 then ''RK45'' else ''RK4'') t self
         = (Inr (Mat r cols), self')"
  shows "integrate solve_ivp t states controls controls_type integration_method self
     = (Inr (Mat (min (n_q self) r) (map (take (n_q self)) cols),
             Mat (r - n_q self) (map (drop (n_q self)) cols)), self')"
  using assms by (auto simp add: integrate_def prog_defs Let_def)

text \<open>
  Claim C5, for the fixed-step method. \<open>integrate\<close> accepts both \<open>RK45\<close> and \<open>RK4\<close>
  and hands the solver the method names \<open>RK45\<close> and \<open>RK4\<close>. With a solver that
  refuses the name \<open>RK4\<close>, as \<open>scipy.integrate.solve_ivp\<close> does (it knows \<open>RK23\<close>,
  \<open>RK45\<close>, \<open>DOP853\<close>, \<open>Radau\<close>, \<open>BDF\<close> and \<open>LSODA\<close>), every call of \<open>integrate\<close>
  with the fixed-step method that passes the checks of the control ends with the
  solver's error, and no trajectory is returned.
\<close>

theorem integrate_fixed_step_refused:
  assumes "type_of controls = type_of states"
    and "controls_type = EMG \<and> shape0 (data_of controls) = n_muscles self
         \<or> controls_type = TORQUE \<and> shape0 (data_of controls) = n_q self"
    and "t \<noteq> []"
    and "\<And>func t_span y0 t_eval s. solve_ivp func t_span y0 ''RK4'' t_eval s = (Inl SolverError, s)"
  shows "integrate solve_ivp t states controls controls_type RK4 self = (Inl SolverError, self)"
  using assms by (auto simp add: integrate_def prog_defs Let_def)

theorem integrate_fixed_step_refused_witness:
  "type_of (Vector NdArray (Vec [0, 0 :: int])) = type_of (Vector NdArray (Vec [1, 2, 3, 4 :: int]))
   \<and> shape0 (data_of (Vector NdArray (Vec [0, 0 :: int]))) = n_q example_model
   \<and> [0, 1 :: int] \<noteq> []
   \<and> (\<forall>func t_span y0 t_eval s. example_solver func t_span y0 ''RK4'' t_eval s = (Inl SolverError, s))
   \<and> integrate example_solver [0, 1] (Vector NdArray (Vec [1, 2, 3, 4])) (Vector NdArray (Vec [0, 0]))
        TORQUE RK4 example_model = (Inl SolverError, example_model)
   \<and> integrate example_solver [0, 1] (Vector NdArray (Vec [1, 2, 3, 4])) (Vector NdArray (Vec [0, 0]))
        TORQUE RK45 example_model = (Inr (Mat 2 [[1, 2]], Mat 2 [[3, 4]]), example_model)"
proof -
  have refuses: "\<And>func t_span y0 t_eval s.
      example_solver func t_span y0 ''RK4'' t_eval s = (Inl SolverError, s)"
    by (simp add: example_solver_def raise_def)
  have "integrate example_solver [0, 1] (Vector NdArray (Vec [1, 2, 3, 4]))
          (Vector NdArray (Vec [0, 0])) TORQUE RK4 example_model = (Inl SolverError, example_model)"
    by (rule integrate_fixed_step_refused [where solve_ivp = example_solver])
       (simp_all add: refuses n_q_def example_model_def example_engine_def)
  moreover have "integrate example_solver [0, 1] (Vector NdArray (Vec [1, 2, 3, 4]))
          (Vector NdArray (Vec [0, 0])) TORQUE RK45 example_model
        = (Inr (Mat 2 [[1, 2]], Mat 2 [[3, 4]]), example_model)"
    by (simp add: integrate_def example_solver_def prog_defs Let_def n_q_def example_model_def
          example_engine_def)
  ultimately show ?thesis
    using refuses by (simp add: n_q_def example_model_def example_engine_def)
qed

end
